theory Spec2Isabelle
  imports Main
begin

section \<open>Text primitives of the host language\<close>

text \<open>
  Text is a list of 8-bit characters (\<^typ>\<open>string\<close>). A value that the TypeScript code
  may find \<^verbatim>\<open>undefined\<close> or \<^verbatim>\<open>null\<close> is an \<^typ>\<open>'a option\<close>. A text is
  \<^emph>\<open>truthy\<close> when it is present and not empty; this is the test behind
  \<^verbatim>\<open>if (x)\<close>, \<^verbatim>\<open>x || d\<close> and \<^verbatim>\<open>!x\<close> on a text.
\<close>

definition truthy :: "string option \<Rightarrow> bool" where
  "truthy x = (case x of None \<Rightarrow> False | Some s \<Rightarrow> s \<noteq> [])"

text \<open>\<^verbatim>\<open>x || d\<close> on texts.\<close>

definition or_else :: "string option \<Rightarrow> string \<Rightarrow> string" where
  "or_else x d = (case x of None \<Rightarrow> d | Some s \<Rightarrow> if s = [] then d else s)"

text \<open>
  \<^verbatim>\<open>String.prototype.toLowerCase\<close> on the 8-bit range: the letters A to Z and the
  accented capitals 192 to 222 (without the multiplication sign 215) move up by 32.
\<close>

definition toLowerCase_char :: "char \<Rightarrow> char" where
  "toLowerCase_char c =
     (let n = (of_char c :: nat) in
      if 65 \<le> n \<and> n \<le> 90 then char_of (n + 32)
      else if 192 \<le> n \<and> n \<le> 222 \<and> n \<noteq> 215 then char_of (n + 32)
      else c)"

definition toLowerCase :: "string \<Rightarrow> string" where
  "toLowerCase s = map toLowerCase_char s"

text \<open>\<^verbatim>\<open>s.startsWith(p)\<close> and \<^verbatim>\<open>s.includes(p)\<close> (here \<open>str_includes\<close>).\<close>

fun startsWith :: "string \<Rightarrow> string \<Rightarrow> bool" where
  "startsWith s [] = True"
| "startsWith [] (p # ps) = False"
| "startsWith (c # cs) (p # ps) = (c = p \<and> startsWith cs ps)"

fun str_includes :: "string \<Rightarrow> string \<Rightarrow> bool" where
  "str_includes [] p = (p = [])"
| "str_includes (c # cs) p = (startsWith (c # cs) p \<or> str_includes cs p)"

section \<open>Font resolution (\<^verbatim>\<open>getFontFamily\<close> in components/TicketCard.tsx)\<close>

datatype font_type = Headline | Body

text \<open>
  \<^verbatim>\<open>const lower = fontName?.toLowerCase() || ''\<close> followed by the chain of
  \<^verbatim>\<open>includes\<close> tests, in the order of the source, and the two brand defaults.
\<close>

definition getFontFamily :: "string option \<Rightarrow> font_type \<Rightarrow> string" where
  "getFontFamily fontName ty =
     (let lower = or_else (map_option toLowerCase fontName) [] in
      if str_includes lower ''playfair'' then ''font-[Playfair_Display]''
      else if str_includes lower ''cormorant'' then ''font-[Cormorant_Garamond]''
      else if str_includes lower ''marcellus'' then ''font-[Cormorant_Garamond]''
      else if str_includes lower ''cinzel'' then ''font-[Cinzel]''
      else if str_includes lower ''montserrat'' then ''font-[Montserrat]''
      else if str_includes lower ''nunito'' then ''font-[Nunito]''
      else if str_includes lower ''space'' then ''font-[Space_Grotesk]''
      else if ty = Headline then ''font-[Playfair_Display]''
      else ''font-[Montserrat]'')"

text \<open>The keywords the chain looks for, and the font classes it can return.\<close>

definition font_keywords :: "string list" where
  "font_keywords =
     [''playfair'', ''cormorant'', ''marcellus'', ''cinzel'', ''montserrat'', ''nunito'', ''space'']"

definition supported_font_classes :: "string list" where
  "supported_font_classes =
     [''font-[Playfair_Display]'', ''font-[Cormorant_Garamond]'', ''font-[Cinzel]'',
      ''font-[Montserrat]'', ''font-[Nunito]'', ''font-[Space_Grotesk]'']"

text \<open>A hint is recognised when its lower-case form contains one of the keywords.\<close>

definition recognised :: "string option \<Rightarrow> bool" where
  "recognised fontName =
     (let lower = or_else (map_option toLowerCase fontName) [] in
      list_ex (str_includes lower) font_keywords)"

section \<open>Seat-info parsing (\<^verbatim>\<open>parseSeatInfo\<close> in components/TicketCard.tsx)\<close>

text \<open>
  The three regular expressions of the source carry the flag \<^verbatim>\<open>i\<close> and are not
  in unicode mode. A literal is compared after \<open>canonicalize\<close> (the upper-case form of
  one character); \<^verbatim>\<open>\s\<close>, \<^verbatim>\<open>\d\<close> and \<^verbatim>\<open>\w\<close> are the classes below.
\<close>

definition canonicalize :: "char \<Rightarrow> char" where
  "canonicalize c =
     (let n = (of_char c :: nat) in
      if 97 \<le> n \<and> n \<le> 122 then char_of (n - 32)
      else if 224 \<le> n \<and> n \<le> 254 \<and> n \<noteq> 247 then char_of (n - 32)
      else c)"

definition is_space :: "char \<Rightarrow> bool" where
  "is_space c = ((of_char c :: nat) \<in> {9, 10, 11, 12, 13, 32, 160})"

definition is_digit :: "char \<Rightarrow> bool" where
  "is_digit c = (let n = (of_char c :: nat) in 48 \<le> n \<and> n \<le> 57)"

definition is_word :: "char \<Rightarrow> bool" where
  "is_word c =
     (let n = (of_char c :: nat) in
      (97 \<le> n \<and> n \<le> 122) \<or> (65 \<le> n \<and> n \<le> 90) \<or> (48 \<le> n \<and> n \<le> 57) \<or> n = 95)"

text \<open>
  The constructs the three patterns are built from: a literal, one character of a class,
  alternation, sequence, the greedy \<^verbatim>\<open>?\<close>, the greedy \<^verbatim>\<open>*\<close> and \<^verbatim>\<open>+\<close> over a
  class of characters, and the capture group.
\<close>

datatype regex =
    Lit string
  | OneOf "char \<Rightarrow> bool"
  | Alt regex regex
  | Seq regex regex
  | Opt regex
  | Star "char \<Rightarrow> bool"
  | Plus "char \<Rightarrow> bool"
  | Group regex

fun startsWith_ci :: "string \<Rightarrow> string \<Rightarrow> bool" where
  "startsWith_ci s [] = True"
| "startsWith_ci [] (p # ps) = False"
| "startsWith_ci (c # cs) (p # ps) = (canonicalize c = canonicalize p \<and> startsWith_ci cs ps)"

text \<open>
  The rests a greedy run over a class can leave, the longest run first: backtracking
  gives the characters back one by one.
\<close>

fun star_ends :: "(char \<Rightarrow> bool) \<Rightarrow> string \<Rightarrow> string list" where
  "star_ends p [] = [[]]"
| "star_ends p (c # cs) = (if p c then star_ends p cs else []) @ [c # cs]"

text \<open>
  The matcher at a fixed start: every way the pattern matches a prefix of the text, in
  the order backtracking tries them, each with the text of the capture group (when the
  group took part) and the rest of the input.
\<close>

fun rmatch :: "regex \<Rightarrow> string \<Rightarrow> (string option \<times> string) list" where
  "rmatch (Lit l) s = (if startsWith_ci s l then [(None, drop (length l) s)] else [])"
| "rmatch (OneOf p) s = (case s of [] \<Rightarrow> [] | c # cs \<Rightarrow> if p c then [(None, cs)] else [])"
| "rmatch (Alt a b) s = rmatch a s @ rmatch b s"
| "rmatch (Seq a b) s =
     concat (map (\<lambda>(c1, r1). map (\<lambda>(c2, r2). (case c2 of None \<Rightarrow> c1 | Some w \<Rightarrow> Some w, r2))
                                 (rmatch b r1))
                 (rmatch a s))"
| "rmatch (Opt a) s = rmatch a s @ [(None, s)]"
| "rmatch (Star p) s = map (Pair None) (star_ends p s)"
| "rmatch (Plus p) s =
     (case s of [] \<Rightarrow> [] | c # cs \<Rightarrow> if p c then map (Pair None) (star_ends p cs) else [])"
| "rmatch (Group a) s = map (\<lambda>(c, r). (Some (take (length s - length r) s), r)) (rmatch a s)"

text \<open>
  \<^verbatim>\<open>info.match(re)\<close> without the flag \<^verbatim>\<open>g\<close>: the first way to match at the leftmost
  start that has one; \<open>None\<close> is \<^verbatim>\<open>null\<close>. \<open>group1\<close> is \<^verbatim>\<open>?.[1]\<close>.
\<close>

fun js_match :: "regex \<Rightarrow> string \<Rightarrow> string option option" where
  "js_match r [] = (case rmatch r [] of [] \<Rightarrow> None | (c, rest) # others \<Rightarrow> Some c)"
| "js_match r (x # xs) =
     (case rmatch r (x # xs) of [] \<Rightarrow> js_match r xs | (c, rest) # others \<Rightarrow> Some c)"

definition group1 :: "string option option \<Rightarrow> string option" where
  "group1 m = (case m of None \<Rightarrow> None | Some c \<Rightarrow> c)"

text \<open>
  The part the three patterns share, \<^verbatim>\<open>\s*[:\-]?\s*([\w\d]+)\<close>, and the patterns:
  \<^verbatim>\<open>(?:Section|Sec\.?|Sec)\<close>, \<^verbatim>\<open>(?:Row)\<close> and \<^verbatim>\<open>(?:Seat)\<close> before it.
\<close>

definition label_tail :: regex where
  "label_tail =
     Seq (Star is_space)
      (Seq (Opt (OneOf (\<lambda>c. c = CHR '':'' \<or> c = CHR ''-'')))
        (Seq (Star is_space) (Group (Plus (\<lambda>c. is_word c \<or> is_digit c)))))"

definition sec_regex :: regex where
  "sec_regex =
     Seq (Alt (Lit ''Section'') (Alt (Seq (Lit ''Sec'') (Opt (Lit ''.''))) (Lit ''Sec''))) label_tail"

definition row_regex :: regex where
  "row_regex = Seq (Lit ''Row'') label_tail"

definition seat_regex :: regex where
  "seat_regex = Seq (Lit ''Seat'') label_tail"

text \<open>The result: \<^verbatim>\<open>{ raw: info }\<close> or \<^verbatim>\<open>{ sec, row, seat }\<close>.\<close>

datatype seat_data =
    Raw string
  | Structured "string option" "string option" "string option"

definition parseSeatInfo :: "string option \<Rightarrow> seat_data" where
  "parseSeatInfo info_arg =
     (let info = (case info_arg of None \<Rightarrow> [] | Some s \<Rightarrow> s);
          sec = group1 (js_match sec_regex info);
          row = group1 (js_match row_regex info);
          seat = group1 (js_match seat_regex info)
      in if \<not> truthy sec \<and> \<not> truthy row \<and> \<not> truthy seat then Raw info
         else Structured sec row seat)"

text \<open>
  The text the function works on (the default parameter \<^verbatim>\<open>info = ''\<close>), and
  what it means for a pattern to match it: \<^verbatim>\<open>info.match(re)\<close> is not null.
\<close>

definition seat_text :: "string option \<Rightarrow> string" where
  "seat_text info_arg = (case info_arg of None \<Rightarrow> [] | Some s \<Rightarrow> s)"

definition pattern_matches :: "regex \<Rightarrow> string \<Rightarrow> bool" where
  "pattern_matches r s = (js_match r s \<noteq> None)"

section \<open>Ticket records (\<^verbatim>\<open>TicketData\<close> in types.ts)\<close>

text \<open>
  The fields the response schema does not require, and those the code reads with
  \<^verbatim>\<open>?.\<close>, may be absent.
\<close>

record event_details =
  artistOrEvent :: string
  venue :: string
  date :: string
  seatInfo :: "string option"
  personalMessage :: "string option"

record typography =
  headlineFont :: "string option"
  bodyFont :: "string option"

record visual_theme =
  colorPalette :: "string list option"
  textures :: "string list"
  typography :: "typography option"
  moodKeywords :: "string list"
  iconIdeas :: "string list"

record ai_prompts =
  backgroundPrompt :: "string option"
  ticketArtPrompt :: "string option"

record gift_copy =
  ticketTitle :: string
  tagline :: string
  emotionalDescription :: string
  giftMessage :: string

text \<open>The weights of \<^verbatim>\<open>layoutGuide.fontWeights\<close>: eventName, seatInfo and extras.\<close>

record font_weights =
  eventNameWeight :: string
  seatInfoWeight :: string
  extrasWeight :: string

record layout_guide =
  recommendedLayout :: string
  hierarchyNotes :: string
  fontWeights :: font_weights

record ticket_data =
  eventDetails :: event_details
  visualTheme :: visual_theme
  aiPrompts :: "ai_prompts option"
  giftCopy :: gift_copy
  layoutGuide :: layout_guide

text \<open>\<^verbatim>\<open>data.aiPrompts?.backgroundPrompt\<close>.\<close>

definition backgroundPrompt_of :: "ticket_data \<Rightarrow> string option" where
  "backgroundPrompt_of d = (case aiPrompts d of None \<Rightarrow> None | Some p \<Rightarrow> backgroundPrompt p)"

section \<open>The generative service (services/geminiService.ts)\<close>

text \<open>
  A thrown value is an error with an optional message. The upstream model is outside the
  program: its answer to a request is a parameter. A text request is rejected or gives
  \<^verbatim>\<open>response.text\<close>; an image request is rejected or gives the parts of the first
  candidate (\<^verbatim>\<open>response.candidates?.[0]?.content?.parts || []\<close>). The client object
  is taken as constructed.
\<close>

datatype js_error = Error (message: "string option")

text \<open>
  The \<^verbatim>\<open>contents\<close> of a text request: the input alone, or a text part with an inline
  image (its MIME type and its base64 data).
\<close>

datatype contents =
    Text string
  | TextAndImage string string string

text \<open>A part of an image response: \<^verbatim>\<open>inlineData\<close> with its \<^verbatim>\<open>data\<close>, and \<^verbatim>\<open>text\<close>.\<close>

datatype blob = Blob (blob_data: "string option")

datatype part = Part (inlineData: "blob option") (part_text: "string option")

text \<open>
  The answers of the world outside: the text model, \<^verbatim>\<open>JSON.parse\<close> on its text, the
  image model, and \<^verbatim>\<open>saveTicketToDb\<close> as its two call sites see it: called with the
  metadata and the image, it throws or returns an id, or nothing. What it stores, and under
  which id, is not part of this development.
\<close>

record services =
  generateContent :: "contents \<Rightarrow> js_error + string option"
  JSON_parse :: "string \<Rightarrow> js_error + ticket_data"
  generateImageContent :: "string \<Rightarrow> js_error + part list"
  saveTicketToDb :: "ticket_data \<Rightarrow> string \<Rightarrow> js_error + string option"

text \<open>
  \<^verbatim>\<open>imageBase64.replace(/^data:image\/(png|jpeg|jpg|webp);base64,/, '')\<close>: the prefix
  is dropped when the text starts with one of the four forms.
\<close>

definition data_uri_prefixes :: "string list" where
  "data_uri_prefixes =
     map (\<lambda>t. ''data:image/'' @ t @ '';base64,'') [''png'', ''jpeg'', ''jpg'', ''webp'']"

definition cleanBase64 :: "string \<Rightarrow> string" where
  "cleanBase64 s =
     (case filter (startsWith s) data_uri_prefixes of
        [] \<Rightarrow> s
      | p # ps \<Rightarrow> drop (length p) s)"

text \<open>
  What \<^verbatim>\<open>generateTicketMetadata\<close> sends: with an image, the text
  \<^verbatim>\<open>input || "Analyze this ticket image ..."\<close> and the cleaned image; else the input.
\<close>

definition metadata_contents :: "string \<Rightarrow> string option \<Rightarrow> contents" where
  "metadata_contents input imageBase64 =
     (if truthy imageBase64
      then TextAndImage
             (or_else (Some input)
                ''Analyze this ticket image and extract details to create a collectible design.'')
             ''image/png'' (cleanBase64 (the imageBase64))
      else Text input)"

definition generateTicketMetadata ::
  "services \<Rightarrow> string \<Rightarrow> string option \<Rightarrow> js_error + ticket_data" where
  "generateTicketMetadata srv input imageBase64 =
     (case generateContent srv (metadata_contents input imageBase64) of
        Inl e \<Rightarrow> Inl e
      | Inr response_text \<Rightarrow>
          if truthy response_text then JSON_parse srv (the response_text)
          else Inl (Error (Some ''No text response from Gemini'')))"

text \<open>The fixed wrapper around the caller's prompt, line breaks and indentation included.\<close>

definition safePrompt :: "string \<Rightarrow> string" where
  "safePrompt prompt =
     ''High quality, cinematic, artistic background art for a concert ticket. '' @ [CHR 0x0A] @
     ''    '' @ prompt @ ''. '' @ [CHR 0x0A] @
     ''    Composition: Wide angle, centered subject, atmospheric lighting, detailed textures.'' @
     [CHR 0x0A] @
     ''    No text, no words.''"

text \<open>
  The loop over the parts: the first part that carries \<^verbatim>\<open>inlineData\<close> ends it with
  a data URI (an undefined \<^verbatim>\<open>data\<close> prints as the word undefined); a part with text
  only is logged and skipped.
\<close>

fun first_inline :: "part list \<Rightarrow> string option" where
  "first_inline [] = None"
| "first_inline (p # ps) =
     (case inlineData p of
        Some b \<Rightarrow> Some (''data:image/png;base64,'' @
                          (case blob_data b of None \<Rightarrow> ''undefined'' | Some d \<Rightarrow> d))
      | None \<Rightarrow> first_inline ps)"

text \<open>
  When no part carries image data the function throws inside its own \<^verbatim>\<open>try\<close>; the
  \<^verbatim>\<open>catch\<close> turns that, and a rejected request, into the empty text.
\<close>

definition generateTicketImage :: "services \<Rightarrow> string \<Rightarrow> string" where
  "generateTicketImage srv prompt =
     (case generateImageContent srv (safePrompt prompt) of
        Inl e \<Rightarrow> []
      | Inr parts \<Rightarrow> (case first_inline parts of Some uri \<Rightarrow> uri | None \<Rightarrow> []))"

section \<open>The application state and the generation pipeline (App.tsx)\<close>

datatype view = Editor | Gallery

text \<open>
  The calls the application makes to its services are recorded in the state, in the order
  they are issued.
\<close>

datatype call =
    MetadataCall string "string option"
  | ImageCall string
  | SaveCall ticket_data string

text \<open>
  The state hooks of the component, the browser's location (path and query), and the
  record of calls. \<open>pushStateThrows\<close> stands for an environment that refuses
  \<^verbatim>\<open>history.pushState\<close>.
\<close>

record app =
  loading :: bool
  imageLoading :: bool
  ticketData :: "ticket_data option"
  ticketImage :: "string option"
  ticketId :: "string option"
  error :: "string option"
  isEditing :: bool
  isCustomImage :: bool
  currentView :: view
  pathname :: string
  search :: string
  pushStateThrows :: bool
  calls :: "call list"

text \<open>
  \<^verbatim>\<open>updateUrl\<close>: the path with \<^verbatim>\<open>?id=\<close> and the id, or the path alone; a refused
  \<^verbatim>\<open>pushState\<close> is caught and leaves the location as it is.
\<close>

definition updateUrl :: "string option \<Rightarrow> app \<Rightarrow> app" where
  "updateUrl ident st =
     (if pushStateThrows st then st
      else if truthy ident then st\<lparr>search := ''?id='' @ the ident\<rparr>
      else st\<lparr>search := []\<rparr>)"

text \<open>
  An asynchronous handler runs up to its next \<^verbatim>\<open>await\<close>, and goes on when the awaited
  call answers. What is pending is the call with its arguments, together with the local
  variables the rest of the handler still reads.
\<close>

datatype pending =
    Submitted string "string option" "string option"
  | AwaitMetadata string "string option" "string option"
  | AwaitImage ticket_data string
  | AwaitSave ticket_data string
  | AwaitMoodImage ticket_data "string option" string
  | AwaitMoodSave ticket_data string
  | Finished

text \<open>
  \<^verbatim>\<open>handleGenerate\<close> up to its first \<^verbatim>\<open>await\<close>: the six setters, then the call of
  the Metadata Generator.
\<close>

definition handleGenerate_begin ::
  "string \<Rightarrow> string option \<Rightarrow> string option \<Rightarrow> app \<Rightarrow> app \<times> pending" where
  "handleGenerate_begin input ocrImage bgImage st =
     (st\<lparr>loading := True, error := None, ticketData := None, ticketImage := None,
         ticketId := None, isEditing := False,
         calls := calls st @ [MetadataCall input ocrImage]\<rparr>,
      AwaitMetadata input ocrImage bgImage)"

text \<open>The \<^verbatim>\<open>finally\<close> and the \<^verbatim>\<open>catch\<close> block:
  \<^verbatim>\<open>setError(err.message || "Something went wrong generating your ticket.")\<close>.\<close>

definition handleGenerate_finally :: "app \<Rightarrow> app \<times> pending" where
  "handleGenerate_finally st = (st\<lparr>loading := False\<rparr>, Finished)"

definition handleGenerate_catch :: "js_error \<Rightarrow> app \<Rightarrow> app \<times> pending" where
  "handleGenerate_catch err st =
     handleGenerate_finally
       (st\<lparr>error := Some (or_else (message err) ''Something went wrong generating your ticket.'')\<rparr>)"

text \<open>Step 3: \<^verbatim>\<open>if (data && finalImage)\<close>; the metadata object is always truthy.\<close>

definition handleGenerate_save :: "ticket_data \<Rightarrow> string \<Rightarrow> app \<Rightarrow> app \<times> pending" where
  "handleGenerate_save data finalImage st =
     (if finalImage \<noteq> []
      then (st\<lparr>calls := calls st @ [SaveCall data finalImage]\<rparr>, AwaitSave data finalImage)
      else handleGenerate_finally st)"

text \<open>
  Steps 1 and 2, from the answer of the Metadata Generator on: a failure goes to the
  \<^verbatim>\<open>catch\<close>; a custom background is adopted; else the Image Generator is called with
  the background prompt, when there is one.
\<close>

definition handleGenerate_onMetadata ::
  "string option \<Rightarrow> js_error + ticket_data \<Rightarrow> app \<Rightarrow> app \<times> pending" where
  "handleGenerate_onMetadata bgImage answer st =
     (case answer of
        Inl err \<Rightarrow> handleGenerate_catch err st
      | Inr data \<Rightarrow>
          let st1 = st\<lparr>ticketData := Some data\<rparr> in
          if truthy bgImage
          then handleGenerate_save data (the bgImage)
                 (st1\<lparr>ticketImage := bgImage, isCustomImage := True\<rparr>)
          else if truthy (backgroundPrompt_of data)
          then (st1\<lparr>calls := calls st1 @ [ImageCall (the (backgroundPrompt_of data))]\<rparr>,
                AwaitImage data (the (backgroundPrompt_of data)))
          else handleGenerate_save data [] st1)"

text \<open>The rest of step 2, from the answer of the Image Generator on.\<close>

definition handleGenerate_onImage :: "ticket_data \<Rightarrow> string \<Rightarrow> app \<Rightarrow> app \<times> pending" where
  "handleGenerate_onImage data finalImage st =
     handleGenerate_save data finalImage
       (st\<lparr>ticketImage := Some finalImage, isCustomImage := False\<rparr>)"

text \<open>The rest of step 3, from the answer of the save on:
  \<^verbatim>\<open>if (newId) { setTicketId(newId); updateUrl(newId); }\<close>.\<close>

definition handleGenerate_onSave :: "js_error + string option \<Rightarrow> app \<Rightarrow> app \<times> pending" where
  "handleGenerate_onSave answer st =
     (case answer of
        Inl err \<Rightarrow> handleGenerate_catch err st
      | Inr newId \<Rightarrow>
          handleGenerate_finally
            (if truthy newId then updateUrl newId (st\<lparr>ticketId := newId\<rparr>) else st))"

text \<open>
  \<^verbatim>\<open>handleMoodSelect\<close>. The handler reads \<^verbatim>\<open>ticketData\<close> and \<^verbatim>\<open>ticketId\<close> as
  they are when it is invoked; without a background prompt it returns at once. Its
  \<^verbatim>\<open>catch\<close> only logs.
\<close>

definition moodPrompt :: "string \<Rightarrow> string \<Rightarrow> string" where
  "moodPrompt prompt mood =
     prompt @ ''. The visual style should be heavily inspired by the mood: '' @ mood @
     ''. Make it distinct and artistic.''"

definition handleMoodSelect_begin :: "string \<Rightarrow> app \<Rightarrow> app \<times> pending" where
  "handleMoodSelect_begin mood st =
     (case ticketData st of
        None \<Rightarrow> (st, Finished)
      | Some data \<Rightarrow>
          if \<not> truthy (backgroundPrompt_of data) then (st, Finished)
          else let modifiedPrompt = moodPrompt (the (backgroundPrompt_of data)) mood in
               (st\<lparr>imageLoading := True, calls := calls st @ [ImageCall modifiedPrompt]\<rparr>,
                AwaitMoodImage data (ticketId st) modifiedPrompt))"

definition handleMoodSelect_finally :: "app \<Rightarrow> app \<times> pending" where
  "handleMoodSelect_finally st = (st\<lparr>imageLoading := False\<rparr>, Finished)"

definition handleMoodSelect_onImage ::
  "ticket_data \<Rightarrow> string option \<Rightarrow> string \<Rightarrow> app \<Rightarrow> app \<times> pending" where
  "handleMoodSelect_onImage data ident newImage st =
     (let st1 = st\<lparr>ticketImage := Some newImage, isCustomImage := False\<rparr> in
      if truthy ident
      then (st1\<lparr>calls := calls st1 @ [SaveCall data newImage]\<rparr>, AwaitMoodSave data newImage)
      else handleMoodSelect_finally st1)"

definition handleMoodSelect_onSave :: "js_error + string option \<Rightarrow> app \<Rightarrow> app \<times> pending" where
  "handleMoodSelect_onSave answer st =
     (case answer of
        Inl err \<Rightarrow> handleMoodSelect_finally st
      | Inr newId \<Rightarrow>
          handleMoodSelect_finally
            (if truthy newId then updateUrl newId (st\<lparr>ticketId := newId\<rparr>) else st))"

text \<open>
  The pending call answers and the handler goes on to its next \<^verbatim>\<open>await\<close> or to its
  end.
\<close>

fun resume :: "services \<Rightarrow> app \<times> pending \<Rightarrow> app \<times> pending" where
  "resume srv (st, Submitted input ocrImage bgImage) =
     handleGenerate_begin input ocrImage bgImage st"
| "resume srv (st, AwaitMetadata input ocrImage bgImage) =
     handleGenerate_onMetadata bgImage (generateTicketMetadata srv input ocrImage) st"
| "resume srv (st, AwaitImage data prompt) =
     handleGenerate_onImage data (generateTicketImage srv prompt) st"
| "resume srv (st, AwaitSave data finalImage) =
     handleGenerate_onSave (saveTicketToDb srv data finalImage) st"
| "resume srv (st, AwaitMoodImage data ident prompt) =
     handleMoodSelect_onImage data ident (generateTicketImage srv prompt) st"
| "resume srv (st, AwaitMoodSave data newImage) =
     handleMoodSelect_onSave (saveTicketToDb srv data newImage) st"
| "resume srv (st, Finished) = (st, Finished)"

text \<open>
  A handler that nothing interleaves with: every awaited call answers before anything
  else happens. \<^verbatim>\<open>handleGenerate\<close> awaits three calls at most, \<^verbatim>\<open>handleMoodSelect\<close>
  two.
\<close>

definition handleGenerate ::
  "services \<Rightarrow> string \<Rightarrow> string option \<Rightarrow> string option \<Rightarrow> app \<Rightarrow> app" where
  "handleGenerate srv input ocrImage bgImage st =
     fst (resume srv (resume srv (resume srv (handleGenerate_begin input ocrImage bgImage st))))"

definition handleMoodSelect :: "services \<Rightarrow> string \<Rightarrow> app \<Rightarrow> app" where
  "handleMoodSelect srv mood st =
     fst (resume srv (resume srv (handleMoodSelect_begin mood st)))"

section \<open>Reading a run off the state\<close>

text \<open>The calls a handler issued: those recorded after the state it started from.\<close>

definition issued :: "app \<Rightarrow> app \<Rightarrow> call list" where
  "issued before after = drop (length (calls before)) (calls after)"

text \<open>Calls of the Persistence Gateway, and calls of the Image Generator.\<close>

fun is_save :: "call \<Rightarrow> bool" where
  "is_save (SaveCall d i) = True"
| "is_save c = False"

fun is_image :: "call \<Rightarrow> bool" where
  "is_image (ImageCall p) = True"
| "is_image c = False"

text \<open>
  The image a run obtains for the metadata it got: the custom background when one was
  supplied, else what the Image Generator returns for the background prompt, else none.
\<close>

definition resolved_image :: "services \<Rightarrow> string option \<Rightarrow> ticket_data \<Rightarrow> string" where
  "resolved_image srv bgImage data =
     (if truthy bgImage then the bgImage
      else if truthy (backgroundPrompt_of data)
      then generateTicketImage srv (the (backgroundPrompt_of data))
      else [])"

section \<open>Two generation runs in flight (App.tsx)\<close>

text \<open>
  The event loop runs one continuation at a time. Two invocations of
  \<^verbatim>\<open>handleGenerate\<close> share the state hooks; each has its own pending call and its own
  answers. A schedule names, step by step, the run whose pending call answers next (for a
  submitted run: the invocation itself); a finished run ignores its turn.
\<close>

datatype run_id = First | Second

record world =
  shared :: app
  first_run :: pending
  second_run :: pending

definition turn :: "services \<Rightarrow> services \<Rightarrow> world \<Rightarrow> run_id \<Rightarrow> world" where
  "turn srv1 srv2 w r =
     (case r of
        First \<Rightarrow> (let (st, p) = resume srv1 (shared w, first_run w)
                  in w\<lparr>shared := st, first_run := p\<rparr>)
      | Second \<Rightarrow> (let (st, p) = resume srv2 (shared w, second_run w)
                   in w\<lparr>shared := st, second_run := p\<rparr>))"

definition exec :: "services \<Rightarrow> services \<Rightarrow> run_id list \<Rightarrow> world \<Rightarrow> world" where
  "exec srv1 srv2 schedule w = foldl (turn srv1 srv2) w schedule"

text \<open>The committed results: \<^verbatim>\<open>ticketData\<close>, \<^verbatim>\<open>ticketImage\<close> and \<^verbatim>\<open>ticketId\<close>.\<close>

definition committed :: "app \<Rightarrow> ticket_data option \<times> string option \<times> string option" where
  "committed st = (ticketData st, ticketImage st, ticketId st)"

section \<open>The ticket card and the print gate (TicketCard.tsx, TicketDisplay.tsx)\<close>

datatype print_texture = NoTexture | Holographic | Matte | Glossy

datatype background = BackgroundImage string | Gradient string string

text \<open>\<^verbatim>\<open>colorPalette?.[i] || fallback\<close>.\<close>

definition palette_color :: "string list option \<Rightarrow> nat \<Rightarrow> string \<Rightarrow> string" where
  "palette_color palette i fallback =
     or_else (case palette of
                None \<Rightarrow> None
              | Some colors \<Rightarrow> if i < length colors then Some (colors ! i) else None)
       fallback"

text \<open>
  What the card shows, as far as the properties below need it: the background layer,
  the width, whether the watermark overlay is rendered, the font classes and the seat
  block.
\<close>

record card =
  card_background :: background
  card_width :: string
  card_watermark :: bool
  card_texture :: print_texture
  card_headlineFontClass :: string
  card_bodyFontClass :: string
  card_seat :: seat_data

definition TicketCard ::
  "ticket_data \<Rightarrow> string option \<Rightarrow> print_texture \<Rightarrow> bool \<Rightarrow> bool \<Rightarrow> bool \<Rightarrow> card" where
  "TicketCard data imageUrl printTexture isImageLoading forPrint hideWatermark =
     (let palette = colorPalette (visualTheme data);
          primaryColor = palette_color palette 0 ''#FF4FA3'';
          secondaryColor = palette_color palette 1 ''#C9A2FF''
      in \<lparr>card_background =
             (if truthy imageUrl then BackgroundImage (the imageUrl)
              else Gradient primaryColor secondaryColor),
           card_width = (if forPrint then ''270mm'' else ''100%''),
           card_watermark = (\<not> forPrint \<and> \<not> hideWatermark),
           card_texture = printTexture,
           card_headlineFontClass =
             getFontFamily (case typography (visualTheme data) of
                              None \<Rightarrow> None | Some t \<Rightarrow> headlineFont t) Headline,
           card_bodyFontClass =
             getFontFamily (case typography (visualTheme data) of
                              None \<Rightarrow> None | Some t \<Rightarrow> bodyFont t) Body,
           card_seat = parseSeatInfo (seatInfo (eventDetails data))\<rparr>)"

text \<open>The properties and the state hooks of \<^verbatim>\<open>TicketDisplay\<close>.\<close>

record display_props =
  props_data :: ticket_data
  props_imageUrl :: "string option"
  props_ticketId :: "string option"
  props_isImageLoading :: bool

record display =
  isPrintStudioOpen :: bool
  printTexture :: print_texture
  isUnlocked :: bool
  isVerifying :: bool
  verificationError :: "string option"
  copySuccess :: bool

text \<open>
  The state of the unlock flow, read off the three hooks the way the payment gate of the
  print studio renders them: the unlocked panel, else the verifying notice, else the
  error with its retry button, else the unlock button.
\<close>

datatype unlock_state = Locked | Verifying | Unlocked | VerificationFailed

definition unlock_state_of :: "display \<Rightarrow> unlock_state" where
  "unlock_state_of d =
     (if \<not> isUnlocked d
      then (if isVerifying d then Verifying
            else if truthy (verificationError d) then VerificationFailed
            else Locked)
      else Unlocked)"

text \<open>The hidden element \<^verbatim>\<open>printable-ticket-source\<close>: the card with
  \<^verbatim>\<open>forPrint={isUnlocked}\<close>.\<close>

definition printable_ticket_source :: "display_props \<Rightarrow> display \<Rightarrow> card" where
  "printable_ticket_source props d =
     TicketCard (props_data props) (props_imageUrl props) (printTexture d)
       (props_isImageLoading props) (isUnlocked d) False"

text \<open>
  The browser as \<^verbatim>\<open>handlePrint\<close> meets it: whether the source element is in the
  document, whether \<^verbatim>\<open>window.open\<close> is refused, the print documents written so far and
  the alerts shown.
\<close>

record print_document =
  doc_title :: string
  doc_body :: card

record browser =
  sourcePresent :: bool
  popupBlocked :: bool
  printed :: "print_document list"
  alerts :: "string list"

definition handlePrint :: "display_props \<Rightarrow> display \<Rightarrow> browser \<Rightarrow> browser" where
  "handlePrint props d b =
     (if \<not> isUnlocked d then b
      else if \<not> sourcePresent b then b
      else if popupBlocked b
      then b\<lparr>alerts := alerts b @ [''Please allow popups to print your ticket!'']\<rparr>
      else b\<lparr>printed := printed b @
                [\<lparr>doc_title = artistOrEvent (eventDetails (props_data props)) @
                                '' - PrettyTickets.com'',
                  doc_body = printable_ticket_source props d\<rparr>]\<rparr>)"

section \<open>Concrete inputs\<close>

text \<open>
  A ticket, services with fixed answers and the state of a freshly mounted application,
  for evaluating the definitions on concrete inputs.
\<close>

definition sample_ticket :: "string \<Rightarrow> string option \<Rightarrow> ticket_data" where
  "sample_ticket name prompt =
     \<lparr>eventDetails = \<lparr>artistOrEvent = name, venue = ''Hall A'', date = ''Jan 1'',
                        seatInfo = Some ''Section 102, Row 5'', personalMessage = None\<rparr>,
      visualTheme = \<lparr>colorPalette = Some [''#112233'', ''#445566''], textures = [],
                       typography = Some \<lparr>headlineFont = Some ''Cinzel'', bodyFont = None\<rparr>,
                       moodKeywords = [''electric''], iconIdeas = []\<rparr>,
      aiPrompts = Some \<lparr>backgroundPrompt = prompt, ticketArtPrompt = None\<rparr>,
      giftCopy = \<lparr>ticketTitle = name, tagline = ''A night to remember'',
                    emotionalDescription = ''Lights and sound'', giftMessage = ''For you''\<rparr>,
      layoutGuide = \<lparr>recommendedLayout = ''split'', hierarchyNotes = ''title first'',
                       fontWeights = \<lparr>eventNameWeight = ''bold'', seatInfoWeight = ''medium'',
                                        extrasWeight = ''light''\<rparr>\<rparr>\<rparr>"

definition sample_services ::
  "js_error + string option \<Rightarrow> ticket_data \<Rightarrow> js_error + part list \<Rightarrow> js_error + string option \<Rightarrow> services" where
  "sample_services text_answer parsed image_answer save_answer =
     \<lparr>generateContent = (\<lambda>c. text_answer),
      JSON_parse = (\<lambda>s. Inr parsed),
      generateImageContent = (\<lambda>p. image_answer),
      saveTicketToDb = (\<lambda>d i. save_answer)\<rparr>"

definition initial_app :: app where
  "initial_app =
     \<lparr>loading = False, imageLoading = False, ticketData = None, ticketImage = None,
      ticketId = None, error = None, isEditing = False, isCustomImage = False,
      currentView = Editor, pathname = ''/'', search = [], pushStateThrows = False,
      calls = []\<rparr>"

text \<open>A submission that succeeds at every step.\<close>

definition happy_services :: services where
  "happy_services =
     sample_services (Inr (Some ''{}'')) (sample_ticket ''Test Show'' (Some ''neon stage''))
       (Inr [Part None (Some ''Here is your image''), Part (Some (Blob (Some ''QUJD''))) None])
       (Inr (Some ''t-1''))"

text \<open>The upstream image model answers with a refusal text and no image.\<close>

definition refusing_services :: services where
  "refusing_services =
     sample_services (Inr (Some ''{}'')) (sample_ticket ''Test Show'' (Some ''neon stage''))
       (Inr [Part None (Some ''I cannot generate images of that.'')])
       (Inr (Some ''t-1''))"

text \<open>The upstream text model answers without text.\<close>

definition silent_services :: services where
  "silent_services =
     sample_services (Inr None) (sample_ticket ''Test Show'' (Some ''neon stage''))
       (Inr []) (Inr (Some ''t-1''))"

text \<open>Two submissions, each with its own answers, and a schedule on which the second
  is invoked right after the first and every answer of the first arrives last.\<close>

definition first_services :: services where
  "first_services =
     sample_services (Inr (Some ''{}'')) (sample_ticket ''First Show'' (Some ''red stage''))
       (Inr [Part (Some (Blob (Some ''Rmlyc3Q=''))) None]) (Inr (Some ''id-first''))"

definition second_services :: services where
  "second_services =
     sample_services (Inr (Some ''{}'')) (sample_ticket ''Second Show'' (Some ''blue stage''))
       (Inr [Part (Some (Blob (Some ''U2Vjb25k''))) None]) (Inr (Some ''id-second''))"

definition two_submissions :: world where
  "two_submissions =
     \<lparr>shared = initial_app,
      first_run = Submitted ''Event/Artist: First Show'' None None,
      second_run = Submitted ''Event/Artist: Second Show'' None None\<rparr>"

definition first_answers_last :: "run_id list" where
  "first_answers_last = [First, Second, Second, Second, Second, First, First, First]"

text \<open>
  A saved ticket on view, with the id \<open>t-1\<close>; the same ticket before any save, shown
  with a custom image; services for a remix, whose save returns no id; and services whose
  save fails.
\<close>

definition viewing_app :: app where
  "viewing_app =
     initial_app\<lparr>ticketData := Some (sample_ticket ''Test Show'' (Some ''neon stage'')),
                 ticketImage := Some ''data:image/png;base64,T0xE'',
                 ticketId := Some ''t-1'', search := ''?id=t-1''\<rparr>"

definition custom_app :: app where
  "custom_app =
     initial_app\<lparr>ticketData := Some (sample_ticket ''Test Show'' (Some ''neon stage'')),
                 ticketImage := Some ''data:image/png;base64,Q1VTVE9N'',
                 isCustomImage := True\<rparr>"

definition remix_services :: services where
  "remix_services =
     sample_services (Inr (Some ''{}'')) (sample_ticket ''Test Show'' (Some ''neon stage''))
       (Inr [Part (Some (Blob (Some ''TkVX''))) None]) (Inr None)"

definition failing_save_services :: services where
  "failing_save_services =
     sample_services (Inr (Some ''{}'')) (sample_ticket ''Test Show'' (Some ''neon stage''))
       (Inr [Part (Some (Blob (Some ''TkVX''))) None]) (Inl (Error (Some ''Failed to fetch'')))"

text \<open>The print studio of a ticket, before and after the unlock.\<close>

definition sample_props :: display_props where
  "sample_props =
     \<lparr>props_data = sample_ticket ''Test Show'' (Some ''neon stage''),
      props_imageUrl = Some ''data:image/png;base64,QUJD'',
      props_ticketId = Some ''t-1'', props_isImageLoading = False\<rparr>"

definition locked_display :: display where
  "locked_display =
     \<lparr>isPrintStudioOpen = True, printTexture = Holographic, isUnlocked = False,
      isVerifying = False, verificationError = None, copySuccess = False\<rparr>"

definition ready_browser :: browser where
  "ready_browser = \<lparr>sourcePresent = True, popupBlocked = False, printed = [], alerts = []\<rparr>"

section \<open>Properties of font resolution\<close>

text \<open>
  C10. Font resolution is total and closed: for every font-name hint, also an absent one,
  \<open>getFontFamily\<close> returns one of the six supported font classes; a hint that contains
  none of the recognised keywords resolves to the Playfair Display class for a headline
  and to the Montserrat class for body text.
\<close>

theorem getFontFamily_closed:
  "getFontFamily fontName ty \<in> set supported_font_classes \<and>
   (\<not> recognised fontName \<longrightarrow>
      getFontFamily fontName ty =
        (case ty of Headline \<Rightarrow> ''font-[Playfair_Display]'' | Body \<Rightarrow> ''font-[Montserrat]''))"
  by (cases ty)
     (simp_all add: getFontFamily_def supported_font_classes_def recognised_def
        font_keywords_def Let_def)

theorem getFontFamily_closed_witness:
  "\<not> recognised (Some ''Comic Sans'') \<and>
   getFontFamily (Some ''Comic Sans'') Headline = ''font-[Playfair_Display]'' \<and>
   \<not> recognised None \<and> getFontFamily None Body = ''font-[Montserrat]''"
  using getFontFamily_closed [of "Some ''Comic Sans''" Headline]
    getFontFamily_closed [of None Body]
  by (simp add: recognised_def font_keywords_def or_else_def toLowerCase_def
        toLowerCase_char_def)

section \<open>Properties of seat-info parsing\<close>

text \<open>
  A greedy run never ends beyond its input, so the capture group, which needs one
  character of the class at least, never captures the empty text.
\<close>

lemma star_ends_length: "r \<in> set (star_ends p s) \<Longrightarrow> length r \<le> length s"
  by (induction s) (auto split: if_splits)

lemma plus_group_capture:
  assumes "(c, r) \<in> set (rmatch (Group (Plus p)) s)"
  shows "\<exists>w. c = Some w \<and> w \<noteq> []"
proof (cases s)
  case Nil
  with assms show ?thesis by simp
next
  case (Cons x xs)
  with assms obtain r' where r': "r' \<in> set (star_ends p xs)" and c: "c = Some (take (length s - length r') s)"
    by (auto split: if_splits)
  from star_ends_length [OF r'] Cons have "length s - length r' > 0" by simp
  with c Cons show ?thesis by auto
qed

lemma seq_capture:
  assumes "\<And>c r t. (c, r) \<in> set (rmatch b t) \<Longrightarrow> \<exists>w. c = Some w \<and> w \<noteq> []"
    and "(c, r) \<in> set (rmatch (Seq a b) s)"
  shows "\<exists>w. c = Some w \<and> w \<noteq> []"
proof -
  from assms(2) obtain c1 r1 c2 where "(c2, r) \<in> set (rmatch b r1)"
    and c: "c = (case c2 of None \<Rightarrow> c1 | Some w \<Rightarrow> Some w)"
    by auto
  from assms(1) [OF this(1)] c show ?thesis by auto
qed

lemma label_tail_capture:
  "(c, r) \<in> set (rmatch label_tail s) \<Longrightarrow> \<exists>w. c = Some w \<and> w \<noteq> []"
  unfolding label_tail_def
  by (erule seq_capture [rotated], erule seq_capture [rotated], erule seq_capture [rotated],
      erule plus_group_capture)

lemma js_match_capture:
  assumes "\<And>c r t. (c, r) \<in> set (rmatch re t) \<Longrightarrow> \<exists>w. c = Some w \<and> w \<noteq> []"
  shows "js_match re s = Some c \<Longrightarrow> \<exists>w. c = Some w \<and> w \<noteq> []"
proof (induction s)
  case Nil
  then show ?case using assms [of _ _ "[]"] by (auto split: list.splits)
next
  case (Cons x xs)
  then show ?case using assms [of _ _ "x # xs"] by (auto split: list.splits)
qed

lemma labelled_capture:
  "js_match (Seq a label_tail) s = Some c \<Longrightarrow> \<exists>w. c = Some w \<and> w \<noteq> []"
  by (erule js_match_capture [rotated], erule seq_capture [rotated], erule label_tail_capture)

lemma labelled_truthy:
  "truthy (group1 (js_match (Seq a label_tail) s)) = pattern_matches (Seq a label_tail) s"
proof (cases "js_match (Seq a label_tail) s")
  case None
  then show ?thesis by (simp add: truthy_def group1_def pattern_matches_def)
next
  case (Some c)
  from labelled_capture [OF this] Some show ?thesis
    by (auto simp: truthy_def group1_def pattern_matches_def)
qed

text \<open>
  C9. Seat-info parsing maps a free text to a tagged union. When one of the Section, Row
  and Seat patterns at least matches the text, the result is the structured variant, each
  component being the capture of its own pattern (absent when that pattern does not
  match, a non-empty text when it does); when none of the three matches, and only then,
  the result is the raw variant holding the text.
\<close>

theorem parseSeatInfo_tagged_union:
  "(if pattern_matches sec_regex (seat_text info) \<or> pattern_matches row_regex (seat_text info)
       \<or> pattern_matches seat_regex (seat_text info)
    then parseSeatInfo info =
           Structured (group1 (js_match sec_regex (seat_text info)))
                      (group1 (js_match row_regex (seat_text info)))
                      (group1 (js_match seat_regex (seat_text info)))
    else parseSeatInfo info = Raw (seat_text info))
   \<and> (pattern_matches sec_regex (seat_text info) = (\<exists>w. group1 (js_match sec_regex (seat_text info)) = Some w \<and> w \<noteq> []))
   \<and> (pattern_matches row_regex (seat_text info) = (\<exists>w. group1 (js_match row_regex (seat_text info)) = Some w \<and> w \<noteq> []))
   \<and> (pattern_matches seat_regex (seat_text info) = (\<exists>w. group1 (js_match seat_regex (seat_text info)) = Some w \<and> w \<noteq> []))"
proof -
  have t: "\<And>a. pattern_matches (Seq a label_tail) (seat_text info)
            = (\<exists>w. group1 (js_match (Seq a label_tail) (seat_text info)) = Some w \<and> w \<noteq> [])"
    unfolding labelled_truthy [symmetric] by (auto simp: truthy_def split: option.splits)
  have p: "parseSeatInfo info =
      (if pattern_matches sec_regex (seat_text info) \<or> pattern_matches row_regex (seat_text info)
          \<or> pattern_matches seat_regex (seat_text info)
       then Structured (group1 (js_match sec_regex (seat_text info)))
                      (group1 (js_match row_regex (seat_text info)))
                      (group1 (js_match seat_regex (seat_text info)))
       else Raw (seat_text info))"
    unfolding parseSeatInfo_def seat_text_def [symmetric] Let_def sec_regex_def row_regex_def seat_regex_def
      labelled_truthy by simp
  show ?thesis using p t [of "Lit ''Row''"] t [of "Lit ''Seat''"] 
     t [of "Alt (Lit ''Section'') (Alt (Seq (Lit ''Sec'') (Opt (Lit ''.''))) (Lit ''Sec''))"]
    by (simp add: sec_regex_def row_regex_def seat_regex_def)
qed

theorem parseSeatInfo_tagged_union_witness:
  "parseSeatInfo (Some ''GA Floor'') = Raw ''GA Floor'' \<and>
   parseSeatInfo (Some ''Section 102, Row 5'') = Structured (Some ''102'') (Some ''5'') None"
proof -
  have none: "\<not> pattern_matches sec_regex ''GA Floor''"
    "\<not> pattern_matches row_regex ''GA Floor''" "\<not> pattern_matches seat_regex ''GA Floor''"
    by code_simp+
  have some: "pattern_matches sec_regex ''Section 102, Row 5''"
    "group1 (js_match sec_regex ''Section 102, Row 5'') = Some ''102''"
    "group1 (js_match row_regex ''Section 102, Row 5'') = Some ''5''"
    "group1 (js_match seat_regex ''Section 102, Row 5'') = None"
    by code_simp+
  show ?thesis
    using parseSeatInfo_tagged_union [of "Some ''GA Floor''"]
      parseSeatInfo_tagged_union [of "Some ''Section 102, Row 5''"] none some
    by (simp add: seat_text_def)
qed

section \<open>Properties of the services and the generation pipeline\<close>

lemmas handleGenerate_defs =
  handleGenerate_def handleGenerate_begin_def handleGenerate_onMetadata_def
  handleGenerate_onImage_def handleGenerate_onSave_def handleGenerate_save_def
  handleGenerate_catch_def handleGenerate_finally_def

lemmas handleMoodSelect_defs =
  handleMoodSelect_def handleMoodSelect_begin_def handleMoodSelect_onImage_def
  handleMoodSelect_onSave_def handleMoodSelect_finally_def

lemmas service_defs =
  generateTicketMetadata_def generateTicketImage_def metadata_contents_def
  backgroundPrompt_of_def truthy_def or_else_def

text \<open>The calls of an uninterrupted generation run, in order.\<close>

lemma issued_handleGenerate:
  "issued st (handleGenerate srv input ocrImage bgImage st) =
     MetadataCall input ocrImage #
     (case generateTicketMetadata srv input ocrImage of
        Inl e \<Rightarrow> []
      | Inr data \<Rightarrow>
          (if \<not> truthy bgImage \<and> truthy (backgroundPrompt_of data)
           then [ImageCall (the (backgroundPrompt_of data))] else []) @
          (if resolved_image srv bgImage data \<noteq> []
           then [SaveCall data (resolved_image srv bgImage data)] else []))"
  by (auto simp: issued_def handleGenerate_defs resolved_image_def updateUrl_def truthy_def
      split: sum.splits option.splits)

text \<open>The calls of an uninterrupted mood remix.\<close>

lemma issued_handleMoodSelect:
  assumes "ticketData st = Some data" and "backgroundPrompt_of data = Some p" and "p \<noteq> []"
  shows "issued st (handleMoodSelect srv mood st) =
     ImageCall (moodPrompt p mood) #
     (if truthy (ticketId st) then [SaveCall data (generateTicketImage srv (moodPrompt p mood))]
      else [])"
  using assms
  by (auto simp: issued_def handleMoodSelect_defs updateUrl_def truthy_def Let_def
      split: sum.splits option.splits)

text \<open>
  A run that ends with an id has had metadata, a non-empty image and a save that returned
  a non-empty id.
\<close>

lemma run_success:
  assumes "ticketId (handleGenerate srv input ocrImage bgImage st) \<noteq> None"
  shows "\<exists>data newId. generateTicketMetadata srv input ocrImage = Inr data
    \<and> resolved_image srv bgImage data \<noteq> []
    \<and> saveTicketToDb srv data (resolved_image srv bgImage data) = Inr (Some newId)
    \<and> newId \<noteq> []"
proof (cases "generateTicketMetadata srv input ocrImage")
  case (Inl e)
  with assms show ?thesis by (simp add: handleGenerate_defs)
next
  case (Inr data)
  show ?thesis
  proof (cases "resolved_image srv bgImage data = []")
    case True
    with assms Inr show ?thesis
      by (auto simp: handleGenerate_defs resolved_image_def Let_def split: if_splits)
  next
    case False
    show ?thesis
    proof (cases "saveTicketToDb srv data (resolved_image srv bgImage data)")
      case (Inl e)
      with assms Inr False show ?thesis
        by (auto simp: handleGenerate_defs resolved_image_def Let_def split: if_splits)
    next
      case r: (Inr newId)
      with assms Inr False have "truthy newId"
        by (auto simp: handleGenerate_defs resolved_image_def Let_def updateUrl_def
            split: if_splits)
      with Inr False r show ?thesis by (auto simp: truthy_def split: option.splits)
    qed
  qed
qed

text \<open>
  Whatever the shared state holds, the three answers of a successful run, arriving one
  after the other, leave that run's metadata, image and id in it.
\<close>

lemma arrivals_commit:
  assumes "generateTicketMetadata srv input ocrImage = Inr data"
    and "resolved_image srv bgImage data \<noteq> []"
    and "saveTicketToDb srv data (resolved_image srv bgImage data) = Inr (Some newId)"
    and "newId \<noteq> []"
  shows "resume srv (resume srv (resume srv (st, AwaitMetadata input ocrImage bgImage))) = (st', p)
     \<Longrightarrow> committed st' = (Some data, Some (resolved_image srv bgImage data), Some newId) \<and>
         p = Finished"
  using assms
  by (auto simp: committed_def handleGenerate_defs resolved_image_def updateUrl_def truthy_def
      Let_def split: sum.splits option.splits if_splits)

lemma exec_append: "exec srv1 srv2 (xs @ ys) w = exec srv1 srv2 ys (exec srv1 srv2 xs w)"
  by (simp add: exec_def)

lemma second_turns:
  "exec srv1 srv2 [Second, Second, Second] w =
     (let (st, p) = resume srv2 (resume srv2 (resume srv2 (shared w, second_run w)))
      in w\<lparr>shared := st, second_run := p\<rparr>)"
  by (simp add: exec_def turn_def split: prod.splits)

lemma first_inline_none: "\<forall>p \<in> set parts. inlineData p = None \<Longrightarrow> first_inline parts = None"
  by (induction parts) auto

subsection \<open>Two runs in flight\<close>

text \<open>
  C1, as stated, does not hold. The second run is invoked while the first still awaits
  its metadata; the second run's three answers arrive, then the first run's. Both runs
  have ended, and the state holds the metadata, the image and the id of the first run,
  not those the second run commits on its own.
\<close>

theorem two_runs_counterexample:
  "first_run (exec first_services second_services [First, Second] two_submissions) =
     AwaitMetadata ''Event/Artist: First Show'' None None \<and>
   second_run (exec first_services second_services [First, Second] two_submissions) =
     AwaitMetadata ''Event/Artist: Second Show'' None None \<and>
   first_run (exec first_services second_services first_answers_last two_submissions) = Finished \<and>
   second_run (exec first_services second_services first_answers_last two_submissions) = Finished \<and>
   committed (shared (exec first_services second_services first_answers_last two_submissions)) =
     (Some (sample_ticket ''First Show'' (Some ''red stage'')),
      Some ''data:image/png;base64,Rmlyc3Q='', Some ''id-first'') \<and>
   committed (handleGenerate second_services ''Event/Artist: Second Show'' None None initial_app) =
     (Some (sample_ticket ''Second Show'' (Some ''blue stage'')),
      Some ''data:image/png;base64,U2Vjb25k'', Some ''id-second'') \<and>
   committed (shared (exec first_services second_services first_answers_last two_submissions)) \<noteq>
     committed (handleGenerate second_services ''Event/Artist: Second Show'' None None initial_app)"
  by (simp add: exec_def turn_def first_services_def second_services_def two_submissions_def
      first_answers_last_def sample_services_def sample_ticket_def initial_app_def
      handleGenerate_defs service_defs committed_def updateUrl_def Let_def)

text \<open>
  C1, amended. No run identity is checked: an answer is applied when it arrives. When the
  second run's answers are the last to arrive (the second run still awaits its metadata
  after any schedule of earlier steps, and its three answers then arrive with no step of
  the first run after them), and the second run obtains metadata, a non-empty image and
  an id, the committed state holds the second run's results only.
\<close>

theorem last_arrival_wins:
  assumes "second_run (exec srv1 srv2 schedule w) = AwaitMetadata input ocrImage bgImage"
    and "ticketId (handleGenerate srv2 input ocrImage bgImage st0) \<noteq> None"
  shows "committed (shared (exec srv1 srv2 (schedule @ [Second, Second, Second]) w)) =
           committed (handleGenerate srv2 input ocrImage bgImage st0) \<and>
         second_run (exec srv1 srv2 (schedule @ [Second, Second, Second]) w) = Finished"
proof -
  from run_success [OF assms(2)] obtain data newId where
    ok: "generateTicketMetadata srv2 input ocrImage = Inr data"
      "resolved_image srv2 bgImage data \<noteq> []"
      "saveTicketToDb srv2 data (resolved_image srv2 bgImage data) = Inr (Some newId)"
      "newId \<noteq> []"
    by blast
  define w1 where "w1 = exec srv1 srv2 schedule w"
  obtain st' p where r: "resume srv2 (resume srv2 (resume srv2
      (shared w1, AwaitMetadata input ocrImage bgImage))) = (st', p)"
    by (cases "resume srv2 (resume srv2 (resume srv2
      (shared w1, AwaitMetadata input ocrImage bgImage)))")
  from arrivals_commit [OF ok r]
  have a: "committed st' = (Some data, Some (resolved_image srv2 bgImage data), Some newId)"
    "p = Finished" by simp_all
  obtain st'' p'' where r0: "resume srv2 (resume srv2 (resume srv2
      (fst (handleGenerate_begin input ocrImage bgImage st0),
       AwaitMetadata input ocrImage bgImage))) = (st'', p'')"
    by (cases "resume srv2 (resume srv2 (resume srv2
      (fst (handleGenerate_begin input ocrImage bgImage st0),
       AwaitMetadata input ocrImage bgImage)))")
  from arrivals_commit [OF ok r0]
  have b: "committed st'' = (Some data, Some (resolved_image srv2 bgImage data), Some newId)"
    by simp
  have hb: "handleGenerate_begin input ocrImage bgImage st0 =
     (fst (handleGenerate_begin input ocrImage bgImage st0),
      AwaitMetadata input ocrImage bgImage)"
    by (simp add: handleGenerate_begin_def)
  have solo: "handleGenerate srv2 input ocrImage bgImage st0 = st''"
    unfolding handleGenerate_def by (subst hb) (use r0 in simp)
  have "exec srv1 srv2 (schedule @ [Second, Second, Second]) w =
      w1\<lparr>shared := st', second_run := p\<rparr>"
    using assms(1) r by (simp add: exec_append second_turns w1_def [symmetric])
  with a b solo show ?thesis by simp
qed

theorem last_arrival_wins_witness:
  "second_run (exec first_services second_services [First, Second, First, First, First]
                 two_submissions) =
     AwaitMetadata ''Event/Artist: Second Show'' None None \<and>
   ticketId (handleGenerate second_services ''Event/Artist: Second Show'' None None initial_app)
     = Some ''id-second'' \<and>
   committed (shared (exec first_services second_services
                        ([First, Second, First, First, First] @ [Second, Second, Second])
                        two_submissions)) =
     (Some (sample_ticket ''Second Show'' (Some ''blue stage'')),
      Some ''data:image/png;base64,U2Vjb25k'', Some ''id-second'')"
proof -
  have h1: "second_run (exec first_services second_services [First, Second, First, First, First]
                 two_submissions) = AwaitMetadata ''Event/Artist: Second Show'' None None"
    by (simp add: exec_def turn_def first_services_def second_services_def two_submissions_def
        sample_services_def sample_ticket_def initial_app_def handleGenerate_defs service_defs
        updateUrl_def Let_def)
  have c: "committed (handleGenerate second_services ''Event/Artist: Second Show'' None None
                        initial_app) =
     (Some (sample_ticket ''Second Show'' (Some ''blue stage'')),
      Some ''data:image/png;base64,U2Vjb25k'', Some ''id-second'')"
    by (simp add: second_services_def sample_services_def sample_ticket_def initial_app_def
        handleGenerate_defs service_defs committed_def updateUrl_def Let_def)
  then have h2: "ticketId (handleGenerate second_services ''Event/Artist: Second Show'' None None
                     initial_app) \<noteq> None"
    by (simp add: committed_def)
  from last_arrival_wins [OF h1 h2] h1 c show ?thesis by (simp add: committed_def)
qed

subsection \<open>The id across edits and remixes\<close>

text \<open>
  C2, as stated, does not hold. A saved ticket with the id \<open>t-1\<close> is on view and is edited,
  which is a new generation run. When the run issues its save, the id held in state is
  already gone, and the save is handed the new metadata and the new image only; here the
  save then fails, and the run ends with the new ticket in state and no id.
\<close>

theorem edit_id_counterexample:
  "ticketId viewing_app = Some ''t-1'' \<and>
   snd (resume failing_save_services (resume failing_save_services
          (handleGenerate_begin ''Event/Artist: Test Show'' None None viewing_app))) =
     AwaitSave (sample_ticket ''Test Show'' (Some ''neon stage'')) ''data:image/png;base64,TkVX'' \<and>
   ticketId (fst (resume failing_save_services (resume failing_save_services
          (handleGenerate_begin ''Event/Artist: Test Show'' None None viewing_app)))) = None \<and>
   ticketData (handleGenerate failing_save_services ''Event/Artist: Test Show'' None None
                 viewing_app) = Some (sample_ticket ''Test Show'' (Some ''neon stage'')) \<and>
   ticketId (handleGenerate failing_save_services ''Event/Artist: Test Show'' None None
               viewing_app) = None"
  by (simp add: failing_save_services_def viewing_app_def sample_services_def sample_ticket_def
      initial_app_def handleGenerate_defs service_defs Let_def)

text \<open>
  C2, amended. For a ticket record that already carries an id, an edit is a new generation
  run: it clears the id held in state before anything is saved, it goes on exactly as a run
  started without an id does, its save is handed the new metadata and image only, and it
  ends with the id that this save returned, or with none when no save was made, the save
  failed or it returned none. A mood remix keeps the id held in state, except that a
  non-empty id returned by its one save is adopted.
\<close>

theorem edit_and_remix_id:
  assumes "ticketId st = Some i" and "i \<noteq> []"
  shows
    "ticketId (fst (handleGenerate_begin input ocrImage bgImage st)) = None \<and>
     handleGenerate srv input ocrImage bgImage st =
       handleGenerate srv input ocrImage bgImage (st\<lparr>ticketId := None\<rparr>) \<and>
     filter is_save (issued st (handleGenerate srv input ocrImage bgImage st)) =
       (case generateTicketMetadata srv input ocrImage of
          Inl e \<Rightarrow> []
        | Inr data \<Rightarrow>
            if resolved_image srv bgImage data \<noteq> []
            then [SaveCall data (resolved_image srv bgImage data)] else []) \<and>
     ticketId (handleGenerate srv input ocrImage bgImage st) =
       (case generateTicketMetadata srv input ocrImage of
          Inl e \<Rightarrow> None
        | Inr data \<Rightarrow>
            if resolved_image srv bgImage data = [] then None
            else (case saveTicketToDb srv data (resolved_image srv bgImage data) of
                    Inl e \<Rightarrow> None
                  | Inr newId \<Rightarrow> if truthy newId then newId else None)) \<and>
     (\<forall>data p. ticketData st = Some data \<and> backgroundPrompt_of data = Some p \<and> p \<noteq> [] \<longrightarrow>
        filter is_save (issued st (handleMoodSelect srv mood st)) =
          [SaveCall data (generateTicketImage srv (moodPrompt p mood))] \<and>
        ticketId (handleMoodSelect srv mood st) =
          (case saveTicketToDb srv data (generateTicketImage srv (moodPrompt p mood)) of
             Inl e \<Rightarrow> Some i
           | Inr newId \<Rightarrow> if truthy newId then newId else Some i))"
proof (intro conjI allI impI)
  show "ticketId (fst (handleGenerate_begin input ocrImage bgImage st)) = None"
    by (simp add: handleGenerate_begin_def)
  show "handleGenerate srv input ocrImage bgImage st =
       handleGenerate srv input ocrImage bgImage (st\<lparr>ticketId := None\<rparr>)"
    by (simp add: handleGenerate_def handleGenerate_begin_def)
  show "filter is_save (issued st (handleGenerate srv input ocrImage bgImage st)) =
       (case generateTicketMetadata srv input ocrImage of
          Inl e \<Rightarrow> []
        | Inr data \<Rightarrow>
            if resolved_image srv bgImage data \<noteq> []
            then [SaveCall data (resolved_image srv bgImage data)] else [])"
    by (simp add: issued_handleGenerate split: sum.splits)
  show "ticketId (handleGenerate srv input ocrImage bgImage st) =
       (case generateTicketMetadata srv input ocrImage of
          Inl e \<Rightarrow> None
        | Inr data \<Rightarrow>
            if resolved_image srv bgImage data = [] then None
            else (case saveTicketToDb srv data (resolved_image srv bgImage data) of
                    Inl e \<Rightarrow> None
                  | Inr newId \<Rightarrow> if truthy newId then newId else None))"
    by (auto simp: handleGenerate_defs resolved_image_def updateUrl_def truthy_def Let_def
        split: sum.splits option.splits if_splits)
next
  fix data p
  assume a: "ticketData st = Some data \<and> backgroundPrompt_of data = Some p \<and> p \<noteq> []"
  with assms show "filter is_save (issued st (handleMoodSelect srv mood st)) =
          [SaveCall data (generateTicketImage srv (moodPrompt p mood))]"
    by (simp add: issued_handleMoodSelect truthy_def)
  from a assms show "ticketId (handleMoodSelect srv mood st) =
          (case saveTicketToDb srv data (generateTicketImage srv (moodPrompt p mood)) of
             Inl e \<Rightarrow> Some i
           | Inr newId \<Rightarrow> if truthy newId then newId else Some i)"
    by (auto simp: handleMoodSelect_defs updateUrl_def truthy_def Let_def
        split: sum.splits option.splits)
qed

theorem edit_and_remix_id_witness:
  "ticketId viewing_app = Some ''t-1'' \<and>
   handleGenerate failing_save_services ''Event/Artist: Test Show'' None None viewing_app =
     handleGenerate failing_save_services ''Event/Artist: Test Show'' None None
       (viewing_app\<lparr>ticketId := None\<rparr>) \<and>
   ticketId (handleGenerate failing_save_services ''Event/Artist: Test Show'' None None
               viewing_app) = None \<and>
   ticketId (handleMoodSelect remix_services ''dreamy'' viewing_app) = Some ''t-1''"
proof -
  have h: "ticketId viewing_app = Some ''t-1''" "''t-1'' \<noteq> []"
    by (simp_all add: viewing_app_def initial_app_def)
  have d: "ticketData viewing_app = Some (sample_ticket ''Test Show'' (Some ''neon stage'')) \<and>
      backgroundPrompt_of (sample_ticket ''Test Show'' (Some ''neon stage'')) = Some ''neon stage''
      \<and> ''neon stage'' \<noteq> []"
    by (simp add: viewing_app_def initial_app_def sample_ticket_def backgroundPrompt_of_def)
  have g: "generateTicketMetadata failing_save_services ''Event/Artist: Test Show'' None =
        Inr (sample_ticket ''Test Show'' (Some ''neon stage''))"
    "resolved_image failing_save_services None (sample_ticket ''Test Show'' (Some ''neon stage''))
       = ''data:image/png;base64,TkVX''"
    "\<And>x y. saveTicketToDb failing_save_services x y = Inl (Error (Some ''Failed to fetch''))"
    "\<And>x y. saveTicketToDb remix_services x y = Inr None"
    by (simp_all add: failing_save_services_def remix_services_def sample_services_def
        sample_ticket_def service_defs resolved_image_def)
  note t = edit_and_remix_id
    [OF h, of "''Event/Artist: Test Show''" None None failing_save_services]
  note u = edit_and_remix_id
    [OF h, of "''Event/Artist: Test Show''" None None remix_services "''dreamy''"]
  from t have e1: "handleGenerate failing_save_services ''Event/Artist: Test Show'' None None
        viewing_app =
     handleGenerate failing_save_services ''Event/Artist: Test Show'' None None
       (viewing_app\<lparr>ticketId := None\<rparr>)"
    by blast
  from t have "ticketId (handleGenerate failing_save_services ''Event/Artist: Test Show'' None
        None viewing_app) =
       (case generateTicketMetadata failing_save_services ''Event/Artist: Test Show'' None of
          Inl e \<Rightarrow> None
        | Inr data \<Rightarrow>
            if resolved_image failing_save_services None data = [] then None
            else (case saveTicketToDb failing_save_services data
                         (resolved_image failing_save_services None data) of
                    Inl e \<Rightarrow> None
                  | Inr newId \<Rightarrow> if truthy newId then newId else None))"
    by blast
  then have e2: "ticketId (handleGenerate failing_save_services ''Event/Artist: Test Show'' None
        None viewing_app) = None"
    by (simp add: g)
  from u [THEN conjunct2, THEN conjunct2, THEN conjunct2, THEN conjunct2, rule_format, OF d]
  have e3: "ticketId (handleMoodSelect remix_services ''dreamy'' viewing_app) = Some ''t-1''"
    by (simp add: g truthy_def)
  from h(1) e1 e2 e3 show ?thesis by blast
qed

subsection \<open>When a generation run saves\<close>

text \<open>
  C3. In a generation run the Persistence Gateway is called if and only if the run
  obtained metadata and a non-empty image, and then once, with both. So no call of the
  run saves a record without an image. When the save returns an id, the id is kept in
  state and the location's query becomes \<open>?id=\<close> followed by the id (in a browser that
  accepts \<^verbatim>\<open>pushState\<close>; where it is refused \<open>updateUrl\<close> leaves the location as it is).
\<close>

theorem handleGenerate_saves_iff_both:
  "filter is_save (issued st (handleGenerate srv input ocrImage bgImage st)) =
     (case generateTicketMetadata srv input ocrImage of
        Inl e \<Rightarrow> []
      | Inr data \<Rightarrow>
          if resolved_image srv bgImage data \<noteq> []
          then [SaveCall data (resolved_image srv bgImage data)] else [])
   \<and> (\<forall>data img. SaveCall data img \<in> set (issued st (handleGenerate srv input ocrImage bgImage st))
                   \<longrightarrow> img \<noteq> [])
   \<and> (\<forall>data newId.
         generateTicketMetadata srv input ocrImage = Inr data \<and>
         resolved_image srv bgImage data \<noteq> [] \<and>
         saveTicketToDb srv data (resolved_image srv bgImage data) = Inr (Some newId) \<and>
         newId \<noteq> []
         \<longrightarrow> ticketId (handleGenerate srv input ocrImage bgImage st) = Some newId \<and>
             (\<not> pushStateThrows st \<longrightarrow>
                search (handleGenerate srv input ocrImage bgImage st) = ''?id='' @ newId))"
proof (intro conjI allI impI)
  show "filter is_save (issued st (handleGenerate srv input ocrImage bgImage st)) =
     (case generateTicketMetadata srv input ocrImage of
        Inl e \<Rightarrow> []
      | Inr data \<Rightarrow>
          if resolved_image srv bgImage data \<noteq> []
          then [SaveCall data (resolved_image srv bgImage data)] else [])"
    by (simp add: issued_handleGenerate split: sum.splits)
next
  fix data img
  assume "SaveCall data img \<in> set (issued st (handleGenerate srv input ocrImage bgImage st))"
  then show "img \<noteq> []"
    by (auto simp: issued_handleGenerate split: sum.splits if_splits)
next
  fix data newId
  assume a: "generateTicketMetadata srv input ocrImage = Inr data \<and>
         resolved_image srv bgImage data \<noteq> [] \<and>
         saveTicketToDb srv data (resolved_image srv bgImage data) = Inr (Some newId) \<and>
         newId \<noteq> []"
  then show "ticketId (handleGenerate srv input ocrImage bgImage st) = Some newId"
    by (auto simp: handleGenerate_defs resolved_image_def updateUrl_def truthy_def Let_def
        split: if_splits option.splits)
  assume "\<not> pushStateThrows st"
  with a show "search (handleGenerate srv input ocrImage bgImage st) = ''?id='' @ newId"
    by (auto simp: handleGenerate_defs resolved_image_def updateUrl_def truthy_def Let_def
        split: if_splits option.splits)
qed

theorem handleGenerate_saves_iff_both_witness:
  "filter is_save
     (issued initial_app (handleGenerate happy_services ''Event/Artist: Test Show'' None None
                            initial_app)) =
     [SaveCall (sample_ticket ''Test Show'' (Some ''neon stage'')) ''data:image/png;base64,QUJD''] \<and>
   filter is_save
     (issued initial_app (handleGenerate refusing_services ''Event/Artist: Test Show'' None None
                            initial_app)) = [] \<and>
   ticketId (handleGenerate happy_services ''Event/Artist: Test Show'' None None initial_app) =
     Some ''t-1'' \<and>
   search (handleGenerate happy_services ''Event/Artist: Test Show'' None None initial_app) =
     ''?id=t-1''"
proof -
  have m: "generateTicketMetadata happy_services ''Event/Artist: Test Show'' None =
      Inr (sample_ticket ''Test Show'' (Some ''neon stage''))"
    "generateTicketMetadata refusing_services ''Event/Artist: Test Show'' None =
      Inr (sample_ticket ''Test Show'' (Some ''neon stage''))"
    by (simp_all add: happy_services_def refusing_services_def sample_services_def service_defs)
  have r: "resolved_image happy_services None (sample_ticket ''Test Show'' (Some ''neon stage'')) =
      ''data:image/png;base64,QUJD''"
    "resolved_image refusing_services None (sample_ticket ''Test Show'' (Some ''neon stage'')) = []"
    by (simp_all add: happy_services_def refusing_services_def sample_services_def
        sample_ticket_def service_defs resolved_image_def)
  have s: "saveTicketToDb happy_services (sample_ticket ''Test Show'' (Some ''neon stage''))
      ''data:image/png;base64,QUJD'' = Inr (Some ''t-1'')" "\<not> pushStateThrows initial_app"
    by (simp_all add: happy_services_def sample_services_def initial_app_def)
  note t1 = handleGenerate_saves_iff_both
    [of initial_app happy_services "''Event/Artist: Test Show''" None None]
  note t2 = handleGenerate_saves_iff_both
    [of initial_app refusing_services "''Event/Artist: Test Show''" None None]
  from t1 [THEN conjunct1] t2 [THEN conjunct1]
    t1 [THEN conjunct2, THEN conjunct2, rule_format,
        of "sample_ticket ''Test Show'' (Some ''neon stage'')" "''t-1''"] m r s
  show ?thesis by simp
qed

subsection \<open>A failed metadata generation\<close>

text \<open>
  C4. When metadata generation fails (the upstream request is rejected, or the response
  has no text, or parsing the text throws), \<open>generateTicketMetadata\<close> fails with that
  error, and the generation run ends with the error's message, or the generic text when
  the error has none, shown to the user: loading is over, \<open>ticketData\<close>, \<open>ticketImage\<close>
  and \<open>ticketId\<close> are absent, and the only call made is the metadata call.
\<close>

theorem handleGenerate_metadata_failure:
  assumes "generateContent srv (metadata_contents input ocrImage) = Inl e
     \<or> (\<exists>t. generateContent srv (metadata_contents input ocrImage) = Inr t \<and> \<not> truthy t
             \<and> e = Error (Some ''No text response from Gemini''))
     \<or> (\<exists>t. generateContent srv (metadata_contents input ocrImage) = Inr t \<and> truthy t
             \<and> JSON_parse srv (the t) = Inl e)"
  shows "generateTicketMetadata srv input ocrImage = Inl e \<and>
     handleGenerate srv input ocrImage bgImage st =
       st\<lparr>loading := False,
          error := Some (or_else (message e) ''Something went wrong generating your ticket.''),
          ticketData := None, ticketImage := None, ticketId := None, isEditing := False,
          calls := calls st @ [MetadataCall input ocrImage]\<rparr>"
proof -
  from assms have m: "generateTicketMetadata srv input ocrImage = Inl e"
    by (auto simp: generateTicketMetadata_def)
  show ?thesis
    by (simp add: m handleGenerate_def handleGenerate_begin_def handleGenerate_onMetadata_def
        handleGenerate_catch_def handleGenerate_finally_def)
qed

theorem handleGenerate_metadata_failure_witness:
  "generateContent silent_services (metadata_contents ''Event/Artist: Test Show'' None) = Inr None \<and>
   error (handleGenerate silent_services ''Event/Artist: Test Show'' None None viewing_app) =
     Some ''No text response from Gemini'' \<and>
   ticketData (handleGenerate silent_services ''Event/Artist: Test Show'' None None viewing_app) = None \<and>
   ticketImage (handleGenerate silent_services ''Event/Artist: Test Show'' None None viewing_app) = None \<and>
   ticketId (handleGenerate silent_services ''Event/Artist: Test Show'' None None viewing_app) = None \<and>
   \<not> loading (handleGenerate silent_services ''Event/Artist: Test Show'' None None viewing_app)"
proof -
  have h: "generateContent silent_services (metadata_contents ''Event/Artist: Test Show'' None)
      = Inr None"
    by (simp add: silent_services_def sample_services_def)
  then have "generateContent silent_services (metadata_contents ''Event/Artist: Test Show'' None)
      = Inl (Error (Some ''No text response from Gemini''))
     \<or> (\<exists>t. generateContent silent_services (metadata_contents ''Event/Artist: Test Show'' None)
              = Inr t \<and> \<not> truthy t
             \<and> Error (Some ''No text response from Gemini'') =
               Error (Some ''No text response from Gemini''))
     \<or> (\<exists>t. generateContent silent_services (metadata_contents ''Event/Artist: Test Show'' None)
              = Inr t \<and> truthy t
             \<and> JSON_parse silent_services (the t) = Inl (Error (Some ''No text response from Gemini'')))"
    by (simp add: truthy_def)
  from handleGenerate_metadata_failure [OF this, of None viewing_app] h
  show ?thesis by (simp add: or_else_def)
qed

subsection \<open>A custom background\<close>

text \<open>
  With a custom background, after any number of answers the image in state is absent or
  the custom image, no call of the Image Generator has been issued, and the run awaits its
  metadata or its save, or has ended.
\<close>

lemma custom_background_steps:
  assumes "truthy bgImage"
  shows "(let (st', p) = (resume srv ^^ n) (handleGenerate_begin input ocrImage bgImage st) in
           (ticketImage st' = None \<or> ticketImage st' = bgImage) \<and>
           filter is_image (issued st st') = [] \<and>
           length (calls st) \<le> length (calls st') \<and>
           (p = AwaitMetadata input ocrImage bgImage \<or> (\<exists>d i. p = AwaitSave d i) \<or> p = Finished))"
proof (induction n)
  case 0
  show ?case by (simp add: handleGenerate_begin_def issued_def)
next
  case (Suc n)
  obtain st1 p1 where s: "(resume srv ^^ n) (handleGenerate_begin input ocrImage bgImage st) = (st1, p1)"
    by (cases "(resume srv ^^ n) (handleGenerate_begin input ocrImage bgImage st)")
  with Suc have inv: "ticketImage st1 = None \<or> ticketImage st1 = bgImage"
    "filter is_image (issued st st1) = []" "length (calls st) \<le> length (calls st1)"
    "p1 = AwaitMetadata input ocrImage bgImage \<or> (\<exists>d i. p1 = AwaitSave d i) \<or> p1 = Finished"
    by simp_all
  from inv(4) show ?case
  proof (elim disjE exE)
    assume "p1 = AwaitMetadata input ocrImage bgImage"
    with s inv(1,2,3) assms show ?thesis
      by (auto simp: handleGenerate_onMetadata_def handleGenerate_save_def
          handleGenerate_catch_def handleGenerate_finally_def issued_def Let_def truthy_def
          split: sum.splits option.splits)
  next
    fix d i assume "p1 = AwaitSave d i"
    with s inv(1,2,3) show ?thesis
      by (auto simp: handleGenerate_onSave_def handleGenerate_catch_def
          handleGenerate_finally_def updateUrl_def issued_def split: sum.splits)
  next
    assume "p1 = Finished"
    with s inv(1,2,3) show ?thesis by simp
  qed
qed

text \<open>
  C6. In a submission that includes a custom background image (a non-empty one), the
  Image Generator is never called, and the image in state is at no point of the run an
  AI-generated one: after every step, and at the end, it is absent (before step 2, or
  when step 1 failed) or the custom image. When the metadata was obtained the custom
  image is adopted as it is, the record is marked as using a custom image, and the save
  is made with the custom image.
\<close>

theorem custom_background_kept:
  assumes "truthy bgImage"
  shows "filter is_image (issued st (handleGenerate srv input ocrImage bgImage st)) = [] \<and>
     (ticketImage (handleGenerate srv input ocrImage bgImage st) = None \<or>
      ticketImage (handleGenerate srv input ocrImage bgImage st) = bgImage) \<and>
     (\<forall>data. generateTicketMetadata srv input ocrImage = Inr data \<longrightarrow>
        ticketData (handleGenerate srv input ocrImage bgImage st) = Some data \<and>
        ticketImage (handleGenerate srv input ocrImage bgImage st) = bgImage \<and>
        isCustomImage (handleGenerate srv input ocrImage bgImage st) \<and>
        filter is_save (issued st (handleGenerate srv input ocrImage bgImage st)) =
          [SaveCall data (the bgImage)]) \<and>
     (\<forall>n. ticketImage (fst ((resume srv ^^ n) (handleGenerate_begin input ocrImage bgImage st)))
            = None \<or>
          ticketImage (fst ((resume srv ^^ n) (handleGenerate_begin input ocrImage bgImage st)))
            = bgImage)"
proof (intro conjI allI impI)
  fix n
  from custom_background_steps
    [OF assms, where srv = srv and n = n and input = input and ocrImage = ocrImage and st = st]
  show "ticketImage (fst ((resume srv ^^ n) (handleGenerate_begin input ocrImage bgImage st)))
            = None \<or>
          ticketImage (fst ((resume srv ^^ n) (handleGenerate_begin input ocrImage bgImage st)))
            = bgImage"
    by (auto split: prod.splits)
next
  show "filter is_image (issued st (handleGenerate srv input ocrImage bgImage st)) = []"
    using assms by (simp add: issued_handleGenerate split: sum.splits)
  show "ticketImage (handleGenerate srv input ocrImage bgImage st) = None \<or>
      ticketImage (handleGenerate srv input ocrImage bgImage st) = bgImage"
    using assms
    by (auto simp: handleGenerate_defs updateUrl_def truthy_def split: sum.splits option.splits)
next
  fix data
  assume m: "generateTicketMetadata srv input ocrImage = Inr data"
  from assms have r: "resolved_image srv bgImage data = the bgImage" "the bgImage \<noteq> []"
    by (auto simp: resolved_image_def truthy_def split: option.splits)
  show "ticketData (handleGenerate srv input ocrImage bgImage st) = Some data"
    using assms m
    by (auto simp: handleGenerate_defs updateUrl_def truthy_def split: sum.splits option.splits)
  show "ticketImage (handleGenerate srv input ocrImage bgImage st) = bgImage"
    using assms m
    by (auto simp: handleGenerate_defs updateUrl_def truthy_def split: sum.splits option.splits)
  show "isCustomImage (handleGenerate srv input ocrImage bgImage st)"
    using assms m
    by (auto simp: handleGenerate_defs updateUrl_def truthy_def split: sum.splits option.splits)
  show "filter is_save (issued st (handleGenerate srv input ocrImage bgImage st)) =
          [SaveCall data (the bgImage)]"
    using assms m r by (simp add: issued_handleGenerate)
qed

theorem custom_background_kept_witness:
  "truthy (Some ''data:image/png;base64,Q1VTVE9N'') \<and>
   filter is_image
     (issued initial_app
        (handleGenerate happy_services ''Event/Artist: Test Show'' None
           (Some ''data:image/png;base64,Q1VTVE9N'') initial_app)) = [] \<and>
   ticketImage (handleGenerate happy_services ''Event/Artist: Test Show'' None
                  (Some ''data:image/png;base64,Q1VTVE9N'') initial_app) =
     Some ''data:image/png;base64,Q1VTVE9N''"
proof -
  have h: "truthy (Some ''data:image/png;base64,Q1VTVE9N'')"
    by (simp add: truthy_def)
  have m: "generateTicketMetadata happy_services ''Event/Artist: Test Show'' None =
      Inr (sample_ticket ''Test Show'' (Some ''neon stage''))"
    by (simp add: happy_services_def sample_services_def service_defs)
  note t = custom_background_kept
    [OF h, of initial_app happy_services "''Event/Artist: Test Show''" None]
  from t [THEN conjunct1] t [THEN conjunct2, THEN conjunct2, THEN conjunct1, rule_format, OF m] h
  show ?thesis by simp
qed

subsection \<open>The mood remix\<close>

text \<open>
  C7, as stated, does not hold: the image is not the only thing a remix replaces. A
  ticket shown with a custom image is marked as such; after a remix the mark is gone, with
  the metadata unchanged and the image replaced.
\<close>

theorem mood_remix_counterexample:
  "isCustomImage custom_app \<and>
   \<not> isCustomImage (handleMoodSelect remix_services ''dreamy'' custom_app) \<and>
   ticketData (handleMoodSelect remix_services ''dreamy'' custom_app) = ticketData custom_app \<and>
   ticketImage (handleMoodSelect remix_services ''dreamy'' custom_app) =
     Some ''data:image/png;base64,TkVX''"
  by (simp add: custom_app_def remix_services_def sample_services_def sample_ticket_def
      initial_app_def handleMoodSelect_defs service_defs moodPrompt_def Let_def)

text \<open>
  C7, amended. A mood remix with mood \<open>m\<close> on a record whose metadata holds a non-empty
  background prompt \<open>p\<close> issues exactly one image request; its prompt is \<open>p\<close> followed by the
  clause that names \<open>m\<close>. The metadata, \<open>eventDetails\<close> included, is left unchanged. The
  image is replaced by what the Image Generator returned for that prompt, and besides the
  image the remix does this and nothing more: it marks the record as not using a custom
  image, it ends the image-loading state, and, when the record has an id, it saves the
  metadata with the new image and adopts a non-empty id the save returns, in state and in
  the location.
\<close>

theorem mood_remix_frame:
  assumes "ticketData st = Some data" and "backgroundPrompt_of data = Some p" and "p \<noteq> []"
  shows "filter is_image (issued st (handleMoodSelect srv mood st)) =
       [ImageCall (p @ ''. The visual style should be heavily inspired by the mood: '' @ mood @
                   ''. Make it distinct and artistic.'')] \<and>
     ticketData (handleMoodSelect srv mood st) = Some data \<and>
     map_option eventDetails (ticketData (handleMoodSelect srv mood st)) =
       Some (eventDetails data) \<and>
     handleMoodSelect srv mood st =
       (let prompt = p @ ''. The visual style should be heavily inspired by the mood: '' @ mood @
                     ''. Make it distinct and artistic.'';
            newImage = generateTicketImage srv prompt;
            shown = st\<lparr>imageLoading := False, ticketImage := Some newImage,
                       isCustomImage := False\<rparr>
        in if truthy (ticketId st)
           then (let saving = shown\<lparr>calls := calls st @ [ImageCall prompt, SaveCall data newImage]\<rparr>
                 in case saveTicketToDb srv data newImage of
                      Inl e \<Rightarrow> saving
                    | Inr newId \<Rightarrow>
                        if truthy newId then updateUrl newId (saving\<lparr>ticketId := newId\<rparr>)
                        else saving)
           else shown\<lparr>calls := calls st @ [ImageCall prompt]\<rparr>)"
proof (intro conjI)
  show "filter is_image (issued st (handleMoodSelect srv mood st)) =
       [ImageCall (p @ ''. The visual style should be heavily inspired by the mood: '' @ mood @
                   ''. Make it distinct and artistic.'')]"
    using assms by (simp add: issued_handleMoodSelect moodPrompt_def)
  show d: "ticketData (handleMoodSelect srv mood st) = Some data"
    using assms
    by (auto simp: handleMoodSelect_defs updateUrl_def truthy_def Let_def
        split: sum.splits option.splits)
  then show "map_option eventDetails (ticketData (handleMoodSelect srv mood st)) =
       Some (eventDetails data)"
    by simp
  show "handleMoodSelect srv mood st =
       (let prompt = p @ ''. The visual style should be heavily inspired by the mood: '' @ mood @
                     ''. Make it distinct and artistic.'';
            newImage = generateTicketImage srv prompt;
            shown = st\<lparr>imageLoading := False, ticketImage := Some newImage,
                       isCustomImage := False\<rparr>
        in if truthy (ticketId st)
           then (let saving = shown\<lparr>calls := calls st @ [ImageCall prompt, SaveCall data newImage]\<rparr>
                 in case saveTicketToDb srv data newImage of
                      Inl e \<Rightarrow> saving
                    | Inr newId \<Rightarrow>
                        if truthy newId then updateUrl newId (saving\<lparr>ticketId := newId\<rparr>)
                        else saving)
           else shown\<lparr>calls := calls st @ [ImageCall prompt]\<rparr>)"
    using assms
    by (auto simp: handleMoodSelect_defs moodPrompt_def updateUrl_def truthy_def Let_def
        split: sum.splits option.splits)
qed

theorem mood_remix_frame_witness:
  "ticketData custom_app = Some (sample_ticket ''Test Show'' (Some ''neon stage'')) \<and>
   filter is_image (issued custom_app (handleMoodSelect remix_services ''dreamy'' custom_app)) =
     [ImageCall ''neon stage. The visual style should be heavily inspired by the mood: dreamy. Make it distinct and artistic.''] \<and>
   handleMoodSelect remix_services ''dreamy'' custom_app =
     custom_app\<lparr>imageLoading := False, ticketImage := Some ''data:image/png;base64,TkVX'',
                isCustomImage := False,
                calls := [ImageCall ''neon stage. The visual style should be heavily inspired by the mood: dreamy. Make it distinct and artistic.'']\<rparr>"
proof -
  have h: "ticketData custom_app = Some (sample_ticket ''Test Show'' (Some ''neon stage''))"
    "backgroundPrompt_of (sample_ticket ''Test Show'' (Some ''neon stage'')) = Some ''neon stage''"
    "''neon stage'' \<noteq> []"
    by (simp_all add: custom_app_def initial_app_def sample_ticket_def backgroundPrompt_of_def)
  have g: "\<And>q. generateTicketImage remix_services q = ''data:image/png;base64,TkVX''"
    by (simp add: remix_services_def sample_services_def generateTicketImage_def)
  have n: "\<not> truthy (ticketId custom_app)" "calls custom_app = []"
    by (simp_all add: custom_app_def initial_app_def truthy_def)
  note t = mood_remix_frame [OF h, of remix_services "''dreamy''"]
  from t [THEN conjunct1] have c: "filter is_image
       (issued custom_app (handleMoodSelect remix_services ''dreamy'' custom_app)) =
     [ImageCall ''neon stage. The visual style should be heavily inspired by the mood: dreamy. Make it distinct and artistic.'']"
    by simp
  from t [THEN conjunct2, THEN conjunct2, THEN conjunct2]
  have e: "handleMoodSelect remix_services ''dreamy'' custom_app =
     custom_app\<lparr>imageLoading := False, ticketImage := Some ''data:image/png;base64,TkVX'',
                isCustomImage := False,
                calls := [ImageCall ''neon stage. The visual style should be heavily inspired by the mood: dreamy. Make it distinct and artistic.'']\<rparr>"
    by (simp add: g n Let_def)
  from h(1) c e show ?thesis by blast
qed

subsection \<open>An image request that yields no image\<close>

text \<open>
  C8. When the upstream image request is rejected, or its answer has no part with inline
  image data (a refusal text, for one), \<open>generateTicketImage\<close> returns the empty text and
  raises nothing. The callers go on without a background: a generation run ends without
  an error, with the metadata in state and an empty image, a mood remix ends with an
  empty image, and the card then shows the gradient of the first two palette colours.
\<close>

theorem image_refusal_is_empty:
  assumes "generateImageContent srv (safePrompt prompt) = Inl e \<or>
     (\<exists>parts. generateImageContent srv (safePrompt prompt) = Inr parts \<and>
              (\<forall>p \<in> set parts. inlineData p = None))"
  shows "generateTicketImage srv prompt = [] \<and>
     (\<forall>data. generateTicketMetadata srv input ocrImage = Inr data \<and>
             backgroundPrompt_of data = Some prompt \<and> prompt \<noteq> [] \<longrightarrow>
        error (handleGenerate srv input ocrImage None st) = None \<and>
        \<not> loading (handleGenerate srv input ocrImage None st) \<and>
        ticketData (handleGenerate srv input ocrImage None st) = Some data \<and>
        ticketImage (handleGenerate srv input ocrImage None st) = Some [] \<and>
        card_background (TicketCard data (ticketImage (handleGenerate srv input ocrImage None st))
                           texture busy forPrint hideWatermark) =
          Gradient (palette_color (colorPalette (visualTheme data)) 0 ''#FF4FA3'')
                   (palette_color (colorPalette (visualTheme data)) 1 ''#C9A2FF'')) \<and>
     (\<forall>data p mood. ticketData st = Some data \<and> backgroundPrompt_of data = Some p \<and> p \<noteq> [] \<and>
             moodPrompt p mood = prompt \<longrightarrow>
        ticketData (handleMoodSelect srv mood st) = Some data \<and>
        ticketImage (handleMoodSelect srv mood st) = Some [] \<and>
        card_background (TicketCard data (ticketImage (handleMoodSelect srv mood st))
                           texture busy forPrint hideWatermark) =
          Gradient (palette_color (colorPalette (visualTheme data)) 0 ''#FF4FA3'')
                   (palette_color (colorPalette (visualTheme data)) 1 ''#C9A2FF''))"
proof -
  from assms have g: "generateTicketImage srv prompt = []"
    by (auto simp: generateTicketImage_def first_inline_none)
  have gen: "\<forall>data. generateTicketMetadata srv input ocrImage = Inr data \<and>
             backgroundPrompt_of data = Some prompt \<and> prompt \<noteq> [] \<longrightarrow>
        error (handleGenerate srv input ocrImage None st) = None \<and>
        \<not> loading (handleGenerate srv input ocrImage None st) \<and>
        ticketData (handleGenerate srv input ocrImage None st) = Some data \<and>
        ticketImage (handleGenerate srv input ocrImage None st) = Some [] \<and>
        card_background (TicketCard data (ticketImage (handleGenerate srv input ocrImage None st))
                           texture busy forPrint hideWatermark) =
          Gradient (palette_color (colorPalette (visualTheme data)) 0 ''#FF4FA3'')
                   (palette_color (colorPalette (visualTheme data)) 1 ''#C9A2FF'')"
    using g by (auto simp: handleGenerate_defs TicketCard_def truthy_def Let_def)
  have remix: "\<forall>data p mood. ticketData st = Some data \<and> backgroundPrompt_of data = Some p \<and>
             p \<noteq> [] \<and> moodPrompt p mood = prompt \<longrightarrow>
        ticketData (handleMoodSelect srv mood st) = Some data \<and>
        ticketImage (handleMoodSelect srv mood st) = Some [] \<and>
        card_background (TicketCard data (ticketImage (handleMoodSelect srv mood st))
                           texture busy forPrint hideWatermark) =
          Gradient (palette_color (colorPalette (visualTheme data)) 0 ''#FF4FA3'')
                   (palette_color (colorPalette (visualTheme data)) 1 ''#C9A2FF'')"
    using g
    by (auto simp: handleMoodSelect_defs TicketCard_def truthy_def Let_def updateUrl_def
        split: sum.splits option.splits)
  from g gen remix show ?thesis by blast
qed

theorem image_refusal_is_empty_witness:
  "generateImageContent refusing_services (safePrompt ''neon stage'') =
     Inr [Part None (Some ''I cannot generate images of that.'')] \<and>
   generateTicketImage refusing_services ''neon stage'' = [] \<and>
   error (handleGenerate refusing_services ''Event/Artist: Test Show'' None None initial_app) = None \<and>
   ticketImage (handleGenerate refusing_services ''Event/Artist: Test Show'' None None initial_app) =
     Some [] \<and>
   card_background
     (TicketCard (sample_ticket ''Test Show'' (Some ''neon stage''))
        (ticketImage (handleGenerate refusing_services ''Event/Artist: Test Show'' None None
                        initial_app)) Holographic False False False) =
     Gradient ''#112233'' ''#445566''"
proof -
  have r: "generateImageContent refusing_services (safePrompt ''neon stage'') =
     Inr [Part None (Some ''I cannot generate images of that.'')]"
    by (simp add: refusing_services_def sample_services_def)
  then have h: "generateImageContent refusing_services (safePrompt ''neon stage'') = Inl (Error None) \<or>
     (\<exists>parts. generateImageContent refusing_services (safePrompt ''neon stage'') = Inr parts \<and>
              (\<forall>p \<in> set parts. inlineData p = None))"
    by simp
  have m: "generateTicketMetadata refusing_services ''Event/Artist: Test Show'' None =
        Inr (sample_ticket ''Test Show'' (Some ''neon stage'')) \<and>
      backgroundPrompt_of (sample_ticket ''Test Show'' (Some ''neon stage'')) = Some ''neon stage''
      \<and> ''neon stage'' \<noteq> []"
    by (simp add: refusing_services_def sample_services_def sample_ticket_def service_defs)
  have c: "palette_color (colorPalette (visualTheme (sample_ticket ''Test Show'' (Some ''neon stage'')))) 0
        ''#FF4FA3'' = ''#112233''"
    "palette_color (colorPalette (visualTheme (sample_ticket ''Test Show'' (Some ''neon stage'')))) 1
        ''#C9A2FF'' = ''#445566''"
    by (simp_all add: sample_ticket_def palette_color_def or_else_def)
  note t = image_refusal_is_empty
    [OF h, of "''Event/Artist: Test Show''" None initial_app Holographic False False False]
  note u = t [THEN conjunct2, THEN conjunct1, rule_format, OF m]
  from u have a: "error (handleGenerate refusing_services ''Event/Artist: Test Show'' None None
      initial_app) = None"
    and b: "ticketImage (handleGenerate refusing_services ''Event/Artist: Test Show'' None None
      initial_app) = Some []"
    by blast+
  from u have "card_background
     (TicketCard (sample_ticket ''Test Show'' (Some ''neon stage''))
        (ticketImage (handleGenerate refusing_services ''Event/Artist: Test Show'' None None
                        initial_app)) Holographic False False False) =
     Gradient (palette_color (colorPalette (visualTheme
                  (sample_ticket ''Test Show'' (Some ''neon stage'')))) 0 ''#FF4FA3'')
              (palette_color (colorPalette (visualTheme
                  (sample_ticket ''Test Show'' (Some ''neon stage'')))) 1 ''#C9A2FF'')"
    by blast
  then have g: "card_background
     (TicketCard (sample_ticket ''Test Show'' (Some ''neon stage''))
        (ticketImage (handleGenerate refusing_services ''Event/Artist: Test Show'' None None
                        initial_app)) Holographic False False False) =
     Gradient ''#112233'' ''#445566''"
    by (simp only: c)
  from t [THEN conjunct1] r a b g show ?thesis by blast
qed

section \<open>Properties of the print gate\<close>

text \<open>
  C5. Whatever the hooks of the unlock flow hold, the print action does nothing unless the
  flow is unlocked: in the locked, verifying and verification-failed states the browser
  is left exactly as it was. A print document is written only in the unlocked state, and
  it is then the rendering of the card at print width and without the watermark.
\<close>

theorem print_only_when_unlocked:
  "(unlock_state_of d \<noteq> Unlocked \<longrightarrow> handlePrint props d b = b) \<and>
   (printed (handlePrint props d b) \<noteq> printed b \<longrightarrow>
      unlock_state_of d = Unlocked \<and>
      printed (handlePrint props d b) =
        printed b @ [\<lparr>doc_title = artistOrEvent (eventDetails (props_data props)) @
                                  '' - PrettyTickets.com'',
                      doc_body = printable_ticket_source props d\<rparr>] \<and>
      \<not> card_watermark (printable_ticket_source props d) \<and>
      card_width (printable_ticket_source props d) = ''270mm'') \<and>
   (unlock_state_of d = Unlocked \<and> sourcePresent b \<and> \<not> popupBlocked b \<longrightarrow>
      printed (handlePrint props d b) \<noteq> printed b)"
  by (auto simp: unlock_state_of_def handlePrint_def printable_ticket_source_def TicketCard_def
      Let_def)

theorem print_only_when_unlocked_witness:
  "unlock_state_of locked_display = Locked \<and>
   unlock_state_of (locked_display\<lparr>isVerifying := True\<rparr>) = Verifying \<and>
   unlock_state_of (locked_display\<lparr>verificationError := Some ''Payment verification failed.''\<rparr>) =
     VerificationFailed \<and>
   unlock_state_of (locked_display\<lparr>isUnlocked := True\<rparr>) = Unlocked \<and>
   handlePrint sample_props locked_display ready_browser = ready_browser \<and>
   handlePrint sample_props (locked_display\<lparr>isVerifying := True\<rparr>) ready_browser = ready_browser \<and>
   handlePrint sample_props
     (locked_display\<lparr>verificationError := Some ''Payment verification failed.''\<rparr>) ready_browser =
     ready_browser \<and>
   map doc_title (printed (handlePrint sample_props (locked_display\<lparr>isUnlocked := True\<rparr>)
                             ready_browser)) = [''Test Show - PrettyTickets.com''] \<and>
   \<not> card_watermark (printable_ticket_source sample_props (locked_display\<lparr>isUnlocked := True\<rparr>))"
proof -
  have s: "unlock_state_of locked_display = Locked"
    "unlock_state_of (locked_display\<lparr>isVerifying := True\<rparr>) = Verifying"
    "unlock_state_of (locked_display\<lparr>verificationError := Some ''Payment verification failed.''\<rparr>) =
       VerificationFailed"
    "unlock_state_of (locked_display\<lparr>isUnlocked := True\<rparr>) = Unlocked"
    by (simp_all add: unlock_state_of_def locked_display_def truthy_def)
  have p: "printed (handlePrint sample_props (locked_display\<lparr>isUnlocked := True\<rparr>) ready_browser)
      \<noteq> printed ready_browser"
    by (simp add: handlePrint_def locked_display_def ready_browser_def)
  have n: "artistOrEvent (eventDetails (props_data sample_props)) = ''Test Show''"
    "printed ready_browser = []"
    by (simp_all add: sample_props_def sample_ticket_def ready_browser_def)
  from print_only_when_unlocked [of locked_display sample_props ready_browser]
    print_only_when_unlocked [of "locked_display\<lparr>isVerifying := True\<rparr>" sample_props ready_browser]
    print_only_when_unlocked
      [of "locked_display\<lparr>verificationError := Some ''Payment verification failed.''\<rparr>"
          sample_props ready_browser]
    print_only_when_unlocked [of "locked_display\<lparr>isUnlocked := True\<rparr>" sample_props ready_browser]
    s p n
  show ?thesis by simp
qed

end
